theory Spec2Isabelle
  imports Complex_Main "HOL-Library.Word"
begin

section \<open>Go values\<close>

text \<open>
  The source is Go. A value of interface type \<open>error\<close> is \<open>nil\<close> or carries a message;
  a pointer, a slice and a map each have \<open>nil\<close> as zero value, which differs from an
  empty slice or map, so each is an \<open>option\<close> with \<open>None\<close> for \<open>nil\<close>.
\<close>

type_synonym error = "string option"
type_synonym 'a ptr = "'a option"
type_synonym 'a slice = "'a list option"
type_synonym ('k, 'v) gomap = "('k \<Rightarrow> 'v option) option"

text \<open>
  Unsigned and signed 64-bit integers are 64-bit words; a fixed array of \<open>n\<close> bytes
  (\<open>[4]byte\<close>, \<open>[32]byte\<close>, \<open>[48]byte\<close>, \<open>[96]byte\<close>) is a word of \<open>8 * n\<close> bits,
  whose zero value is the word \<open>0\<close>.
\<close>

type_synonym byte = "8 word"
type_synonym uint64 = "64 word"
type_synonym Duration = "64 word"
type_synonym Epoch = "64 word"
type_synonym Slot = "64 word"
type_synonym ValidatorIndex = "64 word"
type_synonym CommitteeIndex = "64 word"
type_synonym Gwei = "64 word"
type_synonym DomainType = "32 word"
type_synonym Domain = "256 word"
type_synonym Root = "256 word"
type_synonym BLSPubKey = "384 word"
type_synonym BLSSignature = "768 word"

text \<open>
  The structures of the packages \<open>api/v1\<close> and \<open>spec/phase0\<close> are declared elsewhere;
  the file under study only passes pointers to them along, so they stay opaque.
\<close>

typedecl AttesterDuty
typedecl ProposerDuty
typedecl Attestation
typedecl AttestationData
typedecl SignedAggregateAndProof
typedecl BeaconBlockHeader
typedecl BeaconCommittee
typedecl BeaconBlock
typedecl SignedBeaconBlock
typedecl BeaconCommitteeSubscription
typedecl BeaconState
typedecl Finality
typedecl Fork
typedecl Genesis
typedecl SyncState
typedecl Validator
typedecl SignedVoluntaryExit
typedecl DepositContract
typedecl Event
typedecl Any
typedecl Location

text \<open>
  \<open>eth2client.EventHandlerFunc\<close> is a Go function called with a pointer to an event.
  It returns nothing: what a handler does is its effect on the state \<open>'w\<close>, so two
  handlers differ when their effects do.
\<close>

type_synonym 'w EventHandlerFunc = "Event ptr \<Rightarrow> 'w \<Rightarrow> 'w"

text \<open>\<open>time.Time\<close> is a structure of two integers and a location pointer.\<close>

record Time =
  wall :: uint64
  ext :: "64 word"
  loc :: "Location ptr"

definition Time_zero :: Time where
  "Time_zero = \<lparr>wall = 0, ext = 0, loc = None\<rparr>"

text \<open>
  A \<open>context.Context\<close> is the background context or is derived from a parent with a
  deadline or a key and value. The file hands it on and never inspects it.
\<close>

datatype Context = Background | WithDeadline Context int | WithValue Context string string

subsection \<open>float64\<close>

text \<open>
  \<open>errorRate\<close> and the random roll are \<open>float64\<close>. The code only compares them, so a
  finite value is its real number; the infinities and NaN are kept, since the
  constructor can receive them. \<open>flt\<close> is the IEEE 754 comparison \<open><\<close>: false as soon
  as one side is NaN.
\<close>

datatype float64 = NaN | NegInf | Finite real | PosInf

fun flt :: "float64 \<Rightarrow> float64 \<Rightarrow> bool" where
  "flt NaN y = False"
| "flt x NaN = False"
| "flt x NegInf = False"
| "flt PosInf y = False"
| "flt NegInf y = True"
| "flt (Finite a) (Finite b) = (a < b)"
| "flt (Finite a) PosInf = True"

definition fgt :: "float64 \<Rightarrow> float64 \<Rightarrow> bool" where
  "fgt x y = flt y x"

text \<open>\<open>rand.Float64\<close> returns a number of the half-open interval from 0 to 1.\<close>

fun unit_sample :: "float64 \<Rightarrow> bool" where
  "unit_sample (Finite r) = (0 \<le> r \<and> r < 1)"
| "unit_sample x = False"

section \<open>The client interface\<close>

text \<open>
  \<open>eth2client.Service\<close> is an interface with \<open>Name\<close> and \<open>Address\<close>; every other
  capability is an interface of its own (\<open>SlotDurationProvider\<close>, ...) that the dynamic
  type of a client implements or not. A client is the record of its methods: the field
  of a capability is \<open>None\<close> when the type assertion to that interface fails.
  \<open>ValidatorsProvider\<close> has two methods, \<open>Validators\<close> and \<open>ValidatorsByPubKey\<close>.
  A method reads and changes the state \<open>'w\<close> of whatever lies behind the client
  (the node, the network), and returns its Go results, a value and an error.
\<close>

record 'w Service =
  Name :: string
  Address :: string
  PrysmAttesterDutiesProvider ::
    "(Context \<Rightarrow> Epoch \<Rightarrow> BLSPubKey slice \<Rightarrow> 'w \<Rightarrow> (AttesterDuty ptr slice \<times> error) \<times> 'w) option"
  PrysmProposerDutiesProvider ::
    "(Context \<Rightarrow> Epoch \<Rightarrow> BLSPubKey slice \<Rightarrow> 'w \<Rightarrow> (ProposerDuty ptr slice \<times> error) \<times> 'w) option"
  PrysmValidatorBalancesProvider ::
    "(Context \<Rightarrow> string \<Rightarrow> BLSPubKey slice \<Rightarrow> 'w \<Rightarrow> ((ValidatorIndex, Gwei) gomap \<times> error) \<times> 'w) option"
  EpochFromStateIDProvider ::
    "(Context \<Rightarrow> string \<Rightarrow> 'w \<Rightarrow> (Epoch \<times> error) \<times> 'w) option"
  SlotFromStateIDProvider ::
    "(Context \<Rightarrow> string \<Rightarrow> 'w \<Rightarrow> (Slot \<times> error) \<times> 'w) option"
  NodeVersionProvider ::
    "(Context \<Rightarrow> 'w \<Rightarrow> (string \<times> error) \<times> 'w) option"
  SlotDurationProvider ::
    "(Context \<Rightarrow> 'w \<Rightarrow> (Duration \<times> error) \<times> 'w) option"
  SlotsPerEpochProvider ::
    "(Context \<Rightarrow> 'w \<Rightarrow> (uint64 \<times> error) \<times> 'w) option"
  FarFutureEpochProvider ::
    "(Context \<Rightarrow> 'w \<Rightarrow> (Epoch \<times> error) \<times> 'w) option"
  GenesisValidatorsRootProvider ::
    "(Context \<Rightarrow> 'w \<Rightarrow> (byte slice \<times> error) \<times> 'w) option"
  TargetAggregatorsPerCommitteeProvider ::
    "(Context \<Rightarrow> 'w \<Rightarrow> (uint64 \<times> error) \<times> 'w) option"
  BeaconAttesterDomainProvider ::
    "(Context \<Rightarrow> 'w \<Rightarrow> (DomainType \<times> error) \<times> 'w) option"
  BeaconProposerDomainProvider ::
    "(Context \<Rightarrow> 'w \<Rightarrow> (DomainType \<times> error) \<times> 'w) option"
  RANDAODomainProvider ::
    "(Context \<Rightarrow> 'w \<Rightarrow> (DomainType \<times> error) \<times> 'w) option"
  DepositDomainProvider ::
    "(Context \<Rightarrow> 'w \<Rightarrow> (DomainType \<times> error) \<times> 'w) option"
  VoluntaryExitDomainProvider ::
    "(Context \<Rightarrow> 'w \<Rightarrow> (DomainType \<times> error) \<times> 'w) option"
  SelectionProofDomainProvider ::
    "(Context \<Rightarrow> 'w \<Rightarrow> (DomainType \<times> error) \<times> 'w) option"
  AggregateAndProofDomainProvider ::
    "(Context \<Rightarrow> 'w \<Rightarrow> (DomainType \<times> error) \<times> 'w) option"
  AggregateAttestationProvider ::
    "(Context \<Rightarrow> Slot \<Rightarrow> Root \<Rightarrow> 'w \<Rightarrow> (Attestation ptr \<times> error) \<times> 'w) option"
  AggregateAttestationsSubmitter ::
    "(Context \<Rightarrow> SignedAggregateAndProof ptr slice \<Rightarrow> 'w \<Rightarrow> error \<times> 'w) option"
  AttestationDataProvider ::
    "(Context \<Rightarrow> Slot \<Rightarrow> CommitteeIndex \<Rightarrow> 'w \<Rightarrow> (AttestationData ptr \<times> error) \<times> 'w) option"
  AttestationPoolProvider ::
    "(Context \<Rightarrow> Slot \<Rightarrow> 'w \<Rightarrow> (Attestation ptr slice \<times> error) \<times> 'w) option"
  AttestationsSubmitter ::
    "(Context \<Rightarrow> Attestation ptr slice \<Rightarrow> 'w \<Rightarrow> error \<times> 'w) option"
  AttesterDutiesProvider ::
    "(Context \<Rightarrow> Epoch \<Rightarrow> ValidatorIndex slice \<Rightarrow> 'w \<Rightarrow> (AttesterDuty ptr slice \<times> error) \<times> 'w) option"
  BeaconBlockHeadersProvider ::
    "(Context \<Rightarrow> string \<Rightarrow> 'w \<Rightarrow> (BeaconBlockHeader ptr \<times> error) \<times> 'w) option"
  BeaconCommitteesProvider ::
    "(Context \<Rightarrow> string \<Rightarrow> 'w \<Rightarrow> (BeaconCommittee ptr slice \<times> error) \<times> 'w) option"
  BeaconBlockProposalProvider ::
    "(Context \<Rightarrow> Slot \<Rightarrow> BLSSignature \<Rightarrow> byte slice \<Rightarrow> 'w \<Rightarrow> (BeaconBlock ptr \<times> error) \<times> 'w) option"
  BeaconBlockSubmitter ::
    "(Context \<Rightarrow> SignedBeaconBlock ptr \<Rightarrow> 'w \<Rightarrow> error \<times> 'w) option"
  BeaconCommitteeSubscriptionsSubmitter ::
    "(Context \<Rightarrow> BeaconCommitteeSubscription ptr slice \<Rightarrow> 'w \<Rightarrow> error \<times> 'w) option"
  BeaconStateProvider ::
    "(Context \<Rightarrow> string \<Rightarrow> 'w \<Rightarrow> (BeaconState ptr \<times> error) \<times> 'w) option"
  EventsProvider ::
    "(Context \<Rightarrow> string slice \<Rightarrow> 'w EventHandlerFunc \<Rightarrow> 'w \<Rightarrow> error \<times> 'w) option"
  FinalityProvider ::
    "(Context \<Rightarrow> string \<Rightarrow> 'w \<Rightarrow> (Finality ptr \<times> error) \<times> 'w) option"
  ForkProvider ::
    "(Context \<Rightarrow> string \<Rightarrow> 'w \<Rightarrow> (Fork ptr \<times> error) \<times> 'w) option"
  ForkScheduleProvider ::
    "(Context \<Rightarrow> 'w \<Rightarrow> (Fork ptr slice \<times> error) \<times> 'w) option"
  GenesisProvider ::
    "(Context \<Rightarrow> 'w \<Rightarrow> (Genesis ptr \<times> error) \<times> 'w) option"
  NodeSyncingProvider ::
    "(Context \<Rightarrow> 'w \<Rightarrow> (SyncState ptr \<times> error) \<times> 'w) option"
  ProposerDutiesProvider ::
    "(Context \<Rightarrow> Epoch \<Rightarrow> ValidatorIndex slice \<Rightarrow> 'w \<Rightarrow> (ProposerDuty ptr slice \<times> error) \<times> 'w) option"
  SpecProvider ::
    "(Context \<Rightarrow> 'w \<Rightarrow> ((string, Any) gomap \<times> error) \<times> 'w) option"
  ValidatorBalancesProvider ::
    "(Context \<Rightarrow> string \<Rightarrow> ValidatorIndex slice \<Rightarrow> 'w \<Rightarrow> ((ValidatorIndex, Gwei) gomap \<times> error) \<times> 'w) option"
  ValidatorsProvider ::
    "((Context \<Rightarrow> string \<Rightarrow> ValidatorIndex slice \<Rightarrow> 'w \<Rightarrow> ((ValidatorIndex, Validator ptr) gomap \<times> error) \<times> 'w)
      \<times> (Context \<Rightarrow> string \<Rightarrow> BLSPubKey slice \<Rightarrow> 'w \<Rightarrow> ((ValidatorIndex, Validator ptr) gomap \<times> error) \<times> 'w)) option"
  VoluntaryExitSubmitter ::
    "(Context \<Rightarrow> SignedVoluntaryExit ptr \<Rightarrow> 'w \<Rightarrow> error \<times> 'w) option"
  DomainProvider ::
    "(Context \<Rightarrow> DomainType \<Rightarrow> Epoch \<Rightarrow> 'w \<Rightarrow> (Domain \<times> error) \<times> 'w) option"
  GenesisTimeProvider ::
    "(Context \<Rightarrow> 'w \<Rightarrow> (Time \<times> error) \<times> 'w) option"
  DepositContractProvider ::
    "(Context \<Rightarrow> 'w \<Rightarrow> (DepositContract ptr \<times> error) \<times> 'w) option"
  SignedBeaconBlockProvider ::
    "(Context \<Rightarrow> string \<Rightarrow> 'w \<Rightarrow> (SignedBeaconBlock ptr \<times> error) \<times> 'w) option"
  BeaconStateRootProvider ::
    "(Context \<Rightarrow> string \<Rightarrow> 'w \<Rightarrow> (Root ptr \<times> error) \<times> 'w) option"

section \<open>The erroring client\<close>

record 'w Erroring =
  errorRate :: float64
  "next" :: "'w Service"

text \<open>
  \<open>NewErroring\<close>: the arguments carry a prime, the field names being taken; \<open>next'\<close> is an
  interface value, \<open>None\<close> for \<open>nil\<close>. The
  call to \<open>rand.Seed\<close> reseeds the global generator; the model receives every roll as
  an argument, so the seed does not appear.
\<close>

definition NewErroring :: "Context \<Rightarrow> float64 \<Rightarrow> 'w Service option \<Rightarrow> 'w Erroring option \<times> error" where
  "NewErroring ctx errorRate' next' =
     (case next' of
        None \<Rightarrow> (None, Some ''no next service supplied'')
      | Some n \<Rightarrow>
          if flt errorRate' (Finite 0) then (None, Some ''error rate cannot be less than 0'')
          else if fgt errorRate' (Finite 1) then (None, Some ''error rate cannot be more than 1'')
          else (Some \<lparr>errorRate = errorRate', next = n\<rparr>, None))"

text \<open>\<open>maybeError\<close>; \<open>roll\<close> is the value that \<open>rand.Float64()\<close> returns in this call.\<close>

definition maybeError :: "'w Erroring \<Rightarrow> Context \<Rightarrow> float64 \<Rightarrow> error" where
  "maybeError s ctx roll = (if flt roll (errorRate s) then Some ''error'' else None)"

text \<open>
  The operations of \<open>*Erroring\<close>, in the order of the file: the 47 methods that
  return an error, each behind a capability of the wrapped client. Each takes the
  roll of its call to \<open>maybeError\<close> and the state behind the wrapped client, and
  returns its Go results with the state after the call. The accessors \<open>Name\<close> and
  \<open>Address\<close> of \<open>*Erroring\<close> format the error rate into a string, make no roll and
  return no error; they are not among the operations.
\<close>

definition Erroring_PrysmAttesterDuties ::
  "'w Erroring \<Rightarrow> Context \<Rightarrow> Epoch \<Rightarrow> BLSPubKey slice \<Rightarrow> float64 \<Rightarrow> 'w \<Rightarrow> (AttesterDuty ptr slice \<times> error) \<times> 'w" where
  "Erroring_PrysmAttesterDuties s ctx epoch validatorPubKeys roll w =
     (case maybeError s ctx roll of
        Some err \<Rightarrow> ((None, Some err), w)
      | None \<Rightarrow>
          (case PrysmAttesterDutiesProvider (next s) of
             None \<Rightarrow>
               ((None, Some (Name (next s) @ ''@'' @
                  Address (next s) @ '' does not support this call'')), w)
           | Some PrysmAttesterDuties_impl \<Rightarrow>
               PrysmAttesterDuties_impl ctx epoch validatorPubKeys w))"

definition Erroring_PrysmProposerDuties ::
  "'w Erroring \<Rightarrow> Context \<Rightarrow> Epoch \<Rightarrow> BLSPubKey slice \<Rightarrow> float64 \<Rightarrow> 'w \<Rightarrow> (ProposerDuty ptr slice \<times> error) \<times> 'w" where
  "Erroring_PrysmProposerDuties s ctx epoch validatorPubKeys roll w =
     (case maybeError s ctx roll of
        Some err \<Rightarrow> ((None, Some err), w)
      | None \<Rightarrow>
          (case PrysmProposerDutiesProvider (next s) of
             None \<Rightarrow>
               ((None, Some (Name (next s) @ ''@'' @
                  Address (next s) @ '' does not support this call'')), w)
           | Some PrysmProposerDuties_impl \<Rightarrow>
               PrysmProposerDuties_impl ctx epoch validatorPubKeys w))"

definition Erroring_PrysmValidatorBalances ::
  "'w Erroring \<Rightarrow> Context \<Rightarrow> string \<Rightarrow> BLSPubKey slice \<Rightarrow> float64 \<Rightarrow> 'w \<Rightarrow> ((ValidatorIndex, Gwei) gomap \<times> error) \<times> 'w" where
  "Erroring_PrysmValidatorBalances s ctx stateID validatorPubKeys roll w =
     (case maybeError s ctx roll of
        Some err \<Rightarrow> ((None, Some err), w)
      | None \<Rightarrow>
          (case PrysmValidatorBalancesProvider (next s) of
             None \<Rightarrow>
               ((None, Some (Name (next s) @ ''@'' @
                  Address (next s) @ '' does not support this call'')), w)
           | Some PrysmValidatorBalances_impl \<Rightarrow>
               PrysmValidatorBalances_impl ctx stateID validatorPubKeys w))"

definition Erroring_EpochFromStateID ::
  "'w Erroring \<Rightarrow> Context \<Rightarrow> string \<Rightarrow> float64 \<Rightarrow> 'w \<Rightarrow> (Epoch \<times> error) \<times> 'w" where
  "Erroring_EpochFromStateID s ctx stateID roll w =
     (case maybeError s ctx roll of
        Some err \<Rightarrow> ((0, Some err), w)
      | None \<Rightarrow>
          (case EpochFromStateIDProvider (next s) of
             None \<Rightarrow>
               ((0, Some (Name (next s) @ ''@'' @
                  Address (next s) @ '' does not support this call'')), w)
           | Some EpochFromStateID_impl \<Rightarrow>
               EpochFromStateID_impl ctx stateID w))"

definition Erroring_SlotFromStateID ::
  "'w Erroring \<Rightarrow> Context \<Rightarrow> string \<Rightarrow> float64 \<Rightarrow> 'w \<Rightarrow> (Slot \<times> error) \<times> 'w" where
  "Erroring_SlotFromStateID s ctx stateID roll w =
     (case maybeError s ctx roll of
        Some err \<Rightarrow> ((0, Some err), w)
      | None \<Rightarrow>
          (case SlotFromStateIDProvider (next s) of
             None \<Rightarrow>
               ((0, Some (Name (next s) @ ''@'' @
                  Address (next s) @ '' does not support this call'')), w)
           | Some SlotFromStateID_impl \<Rightarrow>
               SlotFromStateID_impl ctx stateID w))"

definition Erroring_NodeVersion ::
  "'w Erroring \<Rightarrow> Context \<Rightarrow> float64 \<Rightarrow> 'w \<Rightarrow> (string \<times> error) \<times> 'w" where
  "Erroring_NodeVersion s ctx roll w =
     (case maybeError s ctx roll of
        Some err \<Rightarrow> (('''', Some err), w)
      | None \<Rightarrow>
          (case NodeVersionProvider (next s) of
             None \<Rightarrow>
               (('''', Some (Name (next s) @ ''@'' @
                  Address (next s) @ '' does not support this call'')), w)
           | Some NodeVersion_impl \<Rightarrow>
               NodeVersion_impl ctx w))"

definition Erroring_SlotDuration ::
  "'w Erroring \<Rightarrow> Context \<Rightarrow> float64 \<Rightarrow> 'w \<Rightarrow> (Duration \<times> error) \<times> 'w" where
  "Erroring_SlotDuration s ctx roll w =
     (case maybeError s ctx roll of
        Some err \<Rightarrow> ((0, Some err), w)
      | None \<Rightarrow>
          (case SlotDurationProvider (next s) of
             None \<Rightarrow>
               ((0, Some (Name (next s) @ ''@'' @
                  Address (next s) @ '' does not support this call'')), w)
           | Some SlotDuration_impl \<Rightarrow>
               SlotDuration_impl ctx w))"

definition Erroring_SlotsPerEpoch ::
  "'w Erroring \<Rightarrow> Context \<Rightarrow> float64 \<Rightarrow> 'w \<Rightarrow> (uint64 \<times> error) \<times> 'w" where
  "Erroring_SlotsPerEpoch s ctx roll w =
     (case maybeError s ctx roll of
        Some err \<Rightarrow> ((0, Some err), w)
      | None \<Rightarrow>
          (case SlotsPerEpochProvider (next s) of
             None \<Rightarrow>
               ((0, Some (Name (next s) @ ''@'' @
                  Address (next s) @ '' does not support this call'')), w)
           | Some SlotsPerEpoch_impl \<Rightarrow>
               SlotsPerEpoch_impl ctx w))"

definition Erroring_FarFutureEpoch ::
  "'w Erroring \<Rightarrow> Context \<Rightarrow> float64 \<Rightarrow> 'w \<Rightarrow> (Epoch \<times> error) \<times> 'w" where
  "Erroring_FarFutureEpoch s ctx roll w =
     (case maybeError s ctx roll of
        Some err \<Rightarrow> ((0, Some err), w)
      | None \<Rightarrow>
          (case FarFutureEpochProvider (next s) of
             None \<Rightarrow>
               ((0, Some (Name (next s) @ ''@'' @
                  Address (next s) @ '' does not support this call'')), w)
           | Some FarFutureEpoch_impl \<Rightarrow>
               FarFutureEpoch_impl ctx w))"

definition Erroring_GenesisValidatorsRoot ::
  "'w Erroring \<Rightarrow> Context \<Rightarrow> float64 \<Rightarrow> 'w \<Rightarrow> (byte slice \<times> error) \<times> 'w" where
  "Erroring_GenesisValidatorsRoot s ctx roll w =
     (case maybeError s ctx roll of
        Some err \<Rightarrow> ((None, Some err), w)
      | None \<Rightarrow>
          (case GenesisValidatorsRootProvider (next s) of
             None \<Rightarrow>
               ((None, Some (Name (next s) @ ''@'' @
                  Address (next s) @ '' does not support this call'')), w)
           | Some GenesisValidatorsRoot_impl \<Rightarrow>
               GenesisValidatorsRoot_impl ctx w))"

definition Erroring_TargetAggregatorsPerCommittee ::
  "'w Erroring \<Rightarrow> Context \<Rightarrow> float64 \<Rightarrow> 'w \<Rightarrow> (uint64 \<times> error) \<times> 'w" where
  "Erroring_TargetAggregatorsPerCommittee s ctx roll w =
     (case maybeError s ctx roll of
        Some err \<Rightarrow> ((0, Some err), w)
      | None \<Rightarrow>
          (case TargetAggregatorsPerCommitteeProvider (next s) of
             None \<Rightarrow>
               ((0, Some (Name (next s) @ ''@'' @
                  Address (next s) @ '' does not support this call'')), w)
           | Some TargetAggregatorsPerCommittee_impl \<Rightarrow>
               TargetAggregatorsPerCommittee_impl ctx w))"

definition Erroring_BeaconAttesterDomain ::
  "'w Erroring \<Rightarrow> Context \<Rightarrow> float64 \<Rightarrow> 'w \<Rightarrow> (DomainType \<times> error) \<times> 'w" where
  "Erroring_BeaconAttesterDomain s ctx roll w =
     (case maybeError s ctx roll of
        Some err \<Rightarrow> ((0, Some err), w)
      | None \<Rightarrow>
          (case BeaconAttesterDomainProvider (next s) of
             None \<Rightarrow>
               ((0, Some (Name (next s) @ ''@'' @
                  Address (next s) @ '' does not support this call'')), w)
           | Some BeaconAttesterDomain_impl \<Rightarrow>
               BeaconAttesterDomain_impl ctx w))"

definition Erroring_BeaconProposerDomain ::
  "'w Erroring \<Rightarrow> Context \<Rightarrow> float64 \<Rightarrow> 'w \<Rightarrow> (DomainType \<times> error) \<times> 'w" where
  "Erroring_BeaconProposerDomain s ctx roll w =
     (case maybeError s ctx roll of
        Some err \<Rightarrow> ((0, Some err), w)
      | None \<Rightarrow>
          (case BeaconProposerDomainProvider (next s) of
             None \<Rightarrow>
               ((0, Some (Name (next s) @ ''@'' @
                  Address (next s) @ '' does not support this call'')), w)
           | Some BeaconProposerDomain_impl \<Rightarrow>
               BeaconProposerDomain_impl ctx w))"

definition Erroring_RANDAODomain ::
  "'w Erroring \<Rightarrow> Context \<Rightarrow> float64 \<Rightarrow> 'w \<Rightarrow> (DomainType \<times> error) \<times> 'w" where
  "Erroring_RANDAODomain s ctx roll w =
     (case maybeError s ctx roll of
        Some err \<Rightarrow> ((0, Some err), w)
      | None \<Rightarrow>
          (case RANDAODomainProvider (next s) of
             None \<Rightarrow>
               ((0, Some (Name (next s) @ ''@'' @
                  Address (next s) @ '' does not support this call'')), w)
           | Some RANDAODomain_impl \<Rightarrow>
               RANDAODomain_impl ctx w))"

definition Erroring_DepositDomain ::
  "'w Erroring \<Rightarrow> Context \<Rightarrow> float64 \<Rightarrow> 'w \<Rightarrow> (DomainType \<times> error) \<times> 'w" where
  "Erroring_DepositDomain s ctx roll w =
     (case maybeError s ctx roll of
        Some err \<Rightarrow> ((0, Some err), w)
      | None \<Rightarrow>
          (case DepositDomainProvider (next s) of
             None \<Rightarrow>
               ((0, Some (Name (next s) @ ''@'' @
                  Address (next s) @ '' does not support this call'')), w)
           | Some DepositDomain_impl \<Rightarrow>
               DepositDomain_impl ctx w))"

definition Erroring_VoluntaryExitDomain ::
  "'w Erroring \<Rightarrow> Context \<Rightarrow> float64 \<Rightarrow> 'w \<Rightarrow> (DomainType \<times> error) \<times> 'w" where
  "Erroring_VoluntaryExitDomain s ctx roll w =
     (case maybeError s ctx roll of
        Some err \<Rightarrow> ((0, Some err), w)
      | None \<Rightarrow>
          (case VoluntaryExitDomainProvider (next s) of
             None \<Rightarrow>
               ((0, Some (Name (next s) @ ''@'' @
                  Address (next s) @ '' does not support this call'')), w)
           | Some VoluntaryExitDomain_impl \<Rightarrow>
               VoluntaryExitDomain_impl ctx w))"

definition Erroring_SelectionProofDomain ::
  "'w Erroring \<Rightarrow> Context \<Rightarrow> float64 \<Rightarrow> 'w \<Rightarrow> (DomainType \<times> error) \<times> 'w" where
  "Erroring_SelectionProofDomain s ctx roll w =
     (case maybeError s ctx roll of
        Some err \<Rightarrow> ((0, Some err), w)
      | None \<Rightarrow>
          (case SelectionProofDomainProvider (next s) of
             None \<Rightarrow>
               ((0, Some (Name (next s) @ ''@'' @
                  Address (next s) @ '' does not support this call'')), w)
           | Some SelectionProofDomain_impl \<Rightarrow>
               SelectionProofDomain_impl ctx w))"

definition Erroring_AggregateAndProofDomain ::
  "'w Erroring \<Rightarrow> Context \<Rightarrow> float64 \<Rightarrow> 'w \<Rightarrow> (DomainType \<times> error) \<times> 'w" where
  "Erroring_AggregateAndProofDomain s ctx roll w =
     (case maybeError s ctx roll of
        Some err \<Rightarrow> ((0, Some err), w)
      | None \<Rightarrow>
          (case AggregateAndProofDomainProvider (next s) of
             None \<Rightarrow>
               ((0, Some (Name (next s) @ ''@'' @
                  Address (next s) @ '' does not support this call'')), w)
           | Some AggregateAndProofDomain_impl \<Rightarrow>
               AggregateAndProofDomain_impl ctx w))"

definition Erroring_AggregateAttestation ::
  "'w Erroring \<Rightarrow> Context \<Rightarrow> Slot \<Rightarrow> Root \<Rightarrow> float64 \<Rightarrow> 'w \<Rightarrow> (Attestation ptr \<times> error) \<times> 'w" where
  "Erroring_AggregateAttestation s ctx slot attestationDataRoot roll w =
     (case maybeError s ctx roll of
        Some err \<Rightarrow> ((None, Some err), w)
      | None \<Rightarrow>
          (case AggregateAttestationProvider (next s) of
             None \<Rightarrow>
               ((None, Some (Name (next s) @ ''@'' @
                  Address (next s) @ '' does not support this call'')), w)
           | Some AggregateAttestation_impl \<Rightarrow>
               AggregateAttestation_impl ctx slot attestationDataRoot w))"

definition Erroring_SubmitAggregateAttestations ::
  "'w Erroring \<Rightarrow> Context \<Rightarrow> SignedAggregateAndProof ptr slice \<Rightarrow> float64 \<Rightarrow> 'w \<Rightarrow> error \<times> 'w" where
  "Erroring_SubmitAggregateAttestations s ctx aggregateAndProofs roll w =
     (case maybeError s ctx roll of
        Some err \<Rightarrow> (Some err, w)
      | None \<Rightarrow>
          (case AggregateAttestationsSubmitter (next s) of
             None \<Rightarrow>
               (Some (Name (next s) @ ''@'' @
                  Address (next s) @ '' does not support this call''), w)
           | Some SubmitAggregateAttestations_impl \<Rightarrow>
               SubmitAggregateAttestations_impl ctx aggregateAndProofs w))"

definition Erroring_AttestationData ::
  "'w Erroring \<Rightarrow> Context \<Rightarrow> Slot \<Rightarrow> CommitteeIndex \<Rightarrow> float64 \<Rightarrow> 'w \<Rightarrow> (AttestationData ptr \<times> error) \<times> 'w" where
  "Erroring_AttestationData s ctx slot committeeIndex roll w =
     (case maybeError s ctx roll of
        Some err \<Rightarrow> ((None, Some err), w)
      | None \<Rightarrow>
          (case AttestationDataProvider (next s) of
             None \<Rightarrow>
               ((None, Some (Name (next s) @ ''@'' @
                  Address (next s) @ '' does not support this call'')), w)
           | Some AttestationData_impl \<Rightarrow>
               AttestationData_impl ctx slot committeeIndex w))"

definition Erroring_AttestationPool ::
  "'w Erroring \<Rightarrow> Context \<Rightarrow> Slot \<Rightarrow> float64 \<Rightarrow> 'w \<Rightarrow> (Attestation ptr slice \<times> error) \<times> 'w" where
  "Erroring_AttestationPool s ctx slot roll w =
     (case maybeError s ctx roll of
        Some err \<Rightarrow> ((None, Some err), w)
      | None \<Rightarrow>
          (case AttestationPoolProvider (next s) of
             None \<Rightarrow>
               ((None, Some (Name (next s) @ ''@'' @
                  Address (next s) @ '' does not support this call'')), w)
           | Some AttestationPool_impl \<Rightarrow>
               AttestationPool_impl ctx slot w))"

definition Erroring_SubmitAttestations ::
  "'w Erroring \<Rightarrow> Context \<Rightarrow> Attestation ptr slice \<Rightarrow> float64 \<Rightarrow> 'w \<Rightarrow> error \<times> 'w" where
  "Erroring_SubmitAttestations s ctx attestations roll w =
     (case maybeError s ctx roll of
        Some err \<Rightarrow> (Some err, w)
      | None \<Rightarrow>
          (case AttestationsSubmitter (next s) of
             None \<Rightarrow>
               (Some (Name (next s) @ ''@'' @
                  Address (next s) @ '' does not support this call''), w)
           | Some SubmitAttestations_impl \<Rightarrow>
               SubmitAttestations_impl ctx attestations w))"

definition Erroring_AttesterDuties ::
  "'w Erroring \<Rightarrow> Context \<Rightarrow> Epoch \<Rightarrow> ValidatorIndex slice \<Rightarrow> float64 \<Rightarrow> 'w \<Rightarrow> (AttesterDuty ptr slice \<times> error) \<times> 'w" where
  "Erroring_AttesterDuties s ctx epoch validatorIndices roll w =
     (case maybeError s ctx roll of
        Some err \<Rightarrow> ((None, Some err), w)
      | None \<Rightarrow>
          (case AttesterDutiesProvider (next s) of
             None \<Rightarrow>
               ((None, Some (Name (next s) @ ''@'' @
                  Address (next s) @ '' does not support this call'')), w)
           | Some AttesterDuties_impl \<Rightarrow>
               AttesterDuties_impl ctx epoch validatorIndices w))"

definition Erroring_BeaconBlockHeader ::
  "'w Erroring \<Rightarrow> Context \<Rightarrow> string \<Rightarrow> float64 \<Rightarrow> 'w \<Rightarrow> (BeaconBlockHeader ptr \<times> error) \<times> 'w" where
  "Erroring_BeaconBlockHeader s ctx blockID roll w =
     (case maybeError s ctx roll of
        Some err \<Rightarrow> ((None, Some err), w)
      | None \<Rightarrow>
          (case BeaconBlockHeadersProvider (next s) of
             None \<Rightarrow>
               ((None, Some (Name (next s) @ ''@'' @
                  Address (next s) @ '' does not support this call'')), w)
           | Some BeaconBlockHeader_impl \<Rightarrow>
               BeaconBlockHeader_impl ctx blockID w))"

definition Erroring_BeaconCommittees ::
  "'w Erroring \<Rightarrow> Context \<Rightarrow> string \<Rightarrow> float64 \<Rightarrow> 'w \<Rightarrow> (BeaconCommittee ptr slice \<times> error) \<times> 'w" where
  "Erroring_BeaconCommittees s ctx stateID roll w =
     (case maybeError s ctx roll of
        Some err \<Rightarrow> ((None, Some err), w)
      | None \<Rightarrow>
          (case BeaconCommitteesProvider (next s) of
             None \<Rightarrow>
               ((None, Some (Name (next s) @ ''@'' @
                  Address (next s) @ '' does not support this call'')), w)
           | Some BeaconCommittees_impl \<Rightarrow>
               BeaconCommittees_impl ctx stateID w))"

definition Erroring_BeaconBlockProposal ::
  "'w Erroring \<Rightarrow> Context \<Rightarrow> Slot \<Rightarrow> BLSSignature \<Rightarrow> byte slice \<Rightarrow> float64 \<Rightarrow> 'w \<Rightarrow> (BeaconBlock ptr \<times> error) \<times> 'w" where
  "Erroring_BeaconBlockProposal s ctx slot randaoReveal graffiti roll w =
     (case maybeError s ctx roll of
        Some err \<Rightarrow> ((None, Some err), w)
      | None \<Rightarrow>
          (case BeaconBlockProposalProvider (next s) of
             None \<Rightarrow>
               ((None, Some (Name (next s) @ ''@'' @
                  Address (next s) @ '' does not support this call'')), w)
           | Some BeaconBlockProposal_impl \<Rightarrow>
               BeaconBlockProposal_impl ctx slot randaoReveal graffiti w))"

definition Erroring_SubmitBeaconBlock ::
  "'w Erroring \<Rightarrow> Context \<Rightarrow> SignedBeaconBlock ptr \<Rightarrow> float64 \<Rightarrow> 'w \<Rightarrow> error \<times> 'w" where
  "Erroring_SubmitBeaconBlock s ctx block roll w =
     (case maybeError s ctx roll of
        Some err \<Rightarrow> (Some err, w)
      | None \<Rightarrow>
          (case BeaconBlockSubmitter (next s) of
             None \<Rightarrow>
               (Some (Name (next s) @ ''@'' @
                  Address (next s) @ '' does not support this call''), w)
           | Some SubmitBeaconBlock_impl \<Rightarrow>
               SubmitBeaconBlock_impl ctx block w))"

definition Erroring_SubmitBeaconCommitteeSubscriptions ::
  "'w Erroring \<Rightarrow> Context \<Rightarrow> BeaconCommitteeSubscription ptr slice \<Rightarrow> float64 \<Rightarrow> 'w \<Rightarrow> error \<times> 'w" where
  "Erroring_SubmitBeaconCommitteeSubscriptions s ctx subscriptions roll w =
     (case maybeError s ctx roll of
        Some err \<Rightarrow> (Some err, w)
      | None \<Rightarrow>
          (case BeaconCommitteeSubscriptionsSubmitter (next s) of
             None \<Rightarrow>
               (Some (Name (next s) @ ''@'' @
                  Address (next s) @ '' does not support this call''), w)
           | Some SubmitBeaconCommitteeSubscriptions_impl \<Rightarrow>
               SubmitBeaconCommitteeSubscriptions_impl ctx subscriptions w))"

definition Erroring_BeaconState ::
  "'w Erroring \<Rightarrow> Context \<Rightarrow> string \<Rightarrow> float64 \<Rightarrow> 'w \<Rightarrow> (BeaconState ptr \<times> error) \<times> 'w" where
  "Erroring_BeaconState s ctx stateID roll w =
     (case maybeError s ctx roll of
        Some err \<Rightarrow> ((None, Some err), w)
      | None \<Rightarrow>
          (case BeaconStateProvider (next s) of
             None \<Rightarrow>
               ((None, Some (Name (next s) @ ''@'' @
                  Address (next s) @ '' does not support this call'')), w)
           | Some BeaconState_impl \<Rightarrow>
               BeaconState_impl ctx stateID w))"

definition Erroring_Events ::
  "'w Erroring \<Rightarrow> Context \<Rightarrow> string slice \<Rightarrow> 'w EventHandlerFunc \<Rightarrow> float64 \<Rightarrow> 'w \<Rightarrow> error \<times> 'w" where
  "Erroring_Events s ctx topics handler roll w =
     (case maybeError s ctx roll of
        Some err \<Rightarrow> (Some err, w)
      | None \<Rightarrow>
          (case EventsProvider (next s) of
             None \<Rightarrow>
               (Some (Name (next s) @ ''@'' @
                  Address (next s) @ '' does not support this call''), w)
           | Some Events_impl \<Rightarrow>
               Events_impl ctx topics handler w))"

definition Erroring_Finality ::
  "'w Erroring \<Rightarrow> Context \<Rightarrow> string \<Rightarrow> float64 \<Rightarrow> 'w \<Rightarrow> (Finality ptr \<times> error) \<times> 'w" where
  "Erroring_Finality s ctx stateID roll w =
     (case maybeError s ctx roll of
        Some err \<Rightarrow> ((None, Some err), w)
      | None \<Rightarrow>
          (case FinalityProvider (next s) of
             None \<Rightarrow>
               ((None, Some (Name (next s) @ ''@'' @
                  Address (next s) @ '' does not support this call'')), w)
           | Some Finality_impl \<Rightarrow>
               Finality_impl ctx stateID w))"

definition Erroring_Fork ::
  "'w Erroring \<Rightarrow> Context \<Rightarrow> string \<Rightarrow> float64 \<Rightarrow> 'w \<Rightarrow> (Fork ptr \<times> error) \<times> 'w" where
  "Erroring_Fork s ctx stateID roll w =
     (case maybeError s ctx roll of
        Some err \<Rightarrow> ((None, Some err), w)
      | None \<Rightarrow>
          (case ForkProvider (next s) of
             None \<Rightarrow>
               ((None, Some (Name (next s) @ ''@'' @
                  Address (next s) @ '' does not support this call'')), w)
           | Some Fork_impl \<Rightarrow>
               Fork_impl ctx stateID w))"

definition Erroring_ForkSchedule ::
  "'w Erroring \<Rightarrow> Context \<Rightarrow> float64 \<Rightarrow> 'w \<Rightarrow> (Fork ptr slice \<times> error) \<times> 'w" where
  "Erroring_ForkSchedule s ctx roll w =
     (case maybeError s ctx roll of
        Some err \<Rightarrow> ((None, Some err), w)
      | None \<Rightarrow>
          (case ForkScheduleProvider (next s) of
             None \<Rightarrow>
               ((None, Some (Name (next s) @ ''@'' @
                  Address (next s) @ '' does not support this call'')), w)
           | Some ForkSchedule_impl \<Rightarrow>
               ForkSchedule_impl ctx w))"

definition Erroring_Genesis ::
  "'w Erroring \<Rightarrow> Context \<Rightarrow> float64 \<Rightarrow> 'w \<Rightarrow> (Genesis ptr \<times> error) \<times> 'w" where
  "Erroring_Genesis s ctx roll w =
     (case maybeError s ctx roll of
        Some err \<Rightarrow> ((None, Some err), w)
      | None \<Rightarrow>
          (case GenesisProvider (next s) of
             None \<Rightarrow>
               ((None, Some (Name (next s) @ ''@'' @
                  Address (next s) @ '' does not support this call'')), w)
           | Some Genesis_impl \<Rightarrow>
               Genesis_impl ctx w))"

definition Erroring_NodeSyncing ::
  "'w Erroring \<Rightarrow> Context \<Rightarrow> float64 \<Rightarrow> 'w \<Rightarrow> (SyncState ptr \<times> error) \<times> 'w" where
  "Erroring_NodeSyncing s ctx roll w =
     (case maybeError s ctx roll of
        Some err \<Rightarrow> ((None, Some err), w)
      | None \<Rightarrow>
          (case NodeSyncingProvider (next s) of
             None \<Rightarrow>
               ((None, Some (Name (next s) @ ''@'' @
                  Address (next s) @ '' does not support this call'')), w)
           | Some NodeSyncing_impl \<Rightarrow>
               NodeSyncing_impl ctx w))"

definition Erroring_ProposerDuties ::
  "'w Erroring \<Rightarrow> Context \<Rightarrow> Epoch \<Rightarrow> ValidatorIndex slice \<Rightarrow> float64 \<Rightarrow> 'w \<Rightarrow> (ProposerDuty ptr slice \<times> error) \<times> 'w" where
  "Erroring_ProposerDuties s ctx epoch validatorIndices roll w =
     (case maybeError s ctx roll of
        Some err \<Rightarrow> ((None, Some err), w)
      | None \<Rightarrow>
          (case ProposerDutiesProvider (next s) of
             None \<Rightarrow>
               ((None, Some (Name (next s) @ ''@'' @
                  Address (next s) @ '' does not support this call'')), w)
           | Some ProposerDuties_impl \<Rightarrow>
               ProposerDuties_impl ctx epoch validatorIndices w))"

definition Erroring_Spec ::
  "'w Erroring \<Rightarrow> Context \<Rightarrow> float64 \<Rightarrow> 'w \<Rightarrow> ((string, Any) gomap \<times> error) \<times> 'w" where
  "Erroring_Spec s ctx roll w =
     (case maybeError s ctx roll of
        Some err \<Rightarrow> ((None, Some err), w)
      | None \<Rightarrow>
          (case SpecProvider (next s) of
             None \<Rightarrow>
               ((None, Some (Name (next s) @ ''@'' @
                  Address (next s) @ '' does not support this call'')), w)
           | Some Spec_impl \<Rightarrow>
               Spec_impl ctx w))"

definition Erroring_ValidatorBalances ::
  "'w Erroring \<Rightarrow> Context \<Rightarrow> string \<Rightarrow> ValidatorIndex slice \<Rightarrow> float64 \<Rightarrow> 'w \<Rightarrow> ((ValidatorIndex, Gwei) gomap \<times> error) \<times> 'w" where
  "Erroring_ValidatorBalances s ctx stateID validatorIndices roll w =
     (case maybeError s ctx roll of
        Some err \<Rightarrow> ((None, Some err), w)
      | None \<Rightarrow>
          (case ValidatorBalancesProvider (next s) of
             None \<Rightarrow>
               ((None, Some (Name (next s) @ ''@'' @
                  Address (next s) @ '' does not support this call'')), w)
           | Some ValidatorBalances_impl \<Rightarrow>
               ValidatorBalances_impl ctx stateID validatorIndices w))"

definition Erroring_Validators ::
  "'w Erroring \<Rightarrow> Context \<Rightarrow> string \<Rightarrow> ValidatorIndex slice \<Rightarrow> float64 \<Rightarrow> 'w \<Rightarrow> ((ValidatorIndex, Validator ptr) gomap \<times> error) \<times> 'w" where
  "Erroring_Validators s ctx stateID validatorIndices roll w =
     (case maybeError s ctx roll of
        Some err \<Rightarrow> ((None, Some err), w)
      | None \<Rightarrow>
          (case ValidatorsProvider (next s) of
             None \<Rightarrow>
               ((None, Some (Name (next s) @ ''@'' @
                  Address (next s) @ '' does not support this call'')), w)
           | Some (Validators_impl, ValidatorsByPubKey_impl) \<Rightarrow>
               Validators_impl ctx stateID validatorIndices w))"

definition Erroring_ValidatorsByPubKey ::
  "'w Erroring \<Rightarrow> Context \<Rightarrow> string \<Rightarrow> BLSPubKey slice \<Rightarrow> float64 \<Rightarrow> 'w \<Rightarrow> ((ValidatorIndex, Validator ptr) gomap \<times> error) \<times> 'w" where
  "Erroring_ValidatorsByPubKey s ctx stateID validatorPubKeys roll w =
     (case maybeError s ctx roll of
        Some err \<Rightarrow> ((None, Some err), w)
      | None \<Rightarrow>
          (case ValidatorsProvider (next s) of
             None \<Rightarrow>
               ((None, Some (Name (next s) @ ''@'' @
                  Address (next s) @ '' does not support this call'')), w)
           | Some (Validators_impl, ValidatorsByPubKey_impl) \<Rightarrow>
               ValidatorsByPubKey_impl ctx stateID validatorPubKeys w))"

definition Erroring_SubmitVoluntaryExit ::
  "'w Erroring \<Rightarrow> Context \<Rightarrow> SignedVoluntaryExit ptr \<Rightarrow> float64 \<Rightarrow> 'w \<Rightarrow> error \<times> 'w" where
  "Erroring_SubmitVoluntaryExit s ctx voluntaryExit roll w =
     (case maybeError s ctx roll of
        Some err \<Rightarrow> (Some err, w)
      | None \<Rightarrow>
          (case VoluntaryExitSubmitter (next s) of
             None \<Rightarrow>
               (Some (Name (next s) @ ''@'' @
                  Address (next s) @ '' does not support this call''), w)
           | Some SubmitVoluntaryExit_impl \<Rightarrow>
               SubmitVoluntaryExit_impl ctx voluntaryExit w))"

definition Erroring_Domain ::
  "'w Erroring \<Rightarrow> Context \<Rightarrow> DomainType \<Rightarrow> Epoch \<Rightarrow> float64 \<Rightarrow> 'w \<Rightarrow> (Domain \<times> error) \<times> 'w" where
  "Erroring_Domain s ctx domainType epoch roll w =
     (case maybeError s ctx roll of
        Some err \<Rightarrow> ((0, Some err), w)
      | None \<Rightarrow>
          (case DomainProvider (next s) of
             None \<Rightarrow>
               ((0, Some (Name (next s) @ ''@'' @
                  Address (next s) @ '' does not support this call'')), w)
           | Some Domain_impl \<Rightarrow>
               Domain_impl ctx domainType epoch w))"

definition Erroring_GenesisTime ::
  "'w Erroring \<Rightarrow> Context \<Rightarrow> float64 \<Rightarrow> 'w \<Rightarrow> (Time \<times> error) \<times> 'w" where
  "Erroring_GenesisTime s ctx roll w =
     (case maybeError s ctx roll of
        Some err \<Rightarrow> ((Time_zero, Some err), w)
      | None \<Rightarrow>
          (case GenesisTimeProvider (next s) of
             None \<Rightarrow>
               ((Time_zero, Some (Name (next s) @ ''@'' @
                  Address (next s) @ '' does not support this call'')), w)
           | Some GenesisTime_impl \<Rightarrow>
               GenesisTime_impl ctx w))"

definition Erroring_DepositContract ::
  "'w Erroring \<Rightarrow> Context \<Rightarrow> float64 \<Rightarrow> 'w \<Rightarrow> (DepositContract ptr \<times> error) \<times> 'w" where
  "Erroring_DepositContract s ctx roll w =
     (case maybeError s ctx roll of
        Some err \<Rightarrow> ((None, Some err), w)
      | None \<Rightarrow>
          (case DepositContractProvider (next s) of
             None \<Rightarrow>
               ((None, Some (Name (next s) @ ''@'' @
                  Address (next s) @ '' does not support this call'')), w)
           | Some DepositContract_impl \<Rightarrow>
               DepositContract_impl ctx w))"

definition Erroring_SignedBeaconBlock ::
  "'w Erroring \<Rightarrow> Context \<Rightarrow> string \<Rightarrow> float64 \<Rightarrow> 'w \<Rightarrow> (SignedBeaconBlock ptr \<times> error) \<times> 'w" where
  "Erroring_SignedBeaconBlock s ctx blockID roll w =
     (case maybeError s ctx roll of
        Some err \<Rightarrow> ((None, Some err), w)
      | None \<Rightarrow>
          (case SignedBeaconBlockProvider (next s) of
             None \<Rightarrow>
               ((None, Some (Name (next s) @ ''@'' @
                  Address (next s) @ '' does not support this call'')), w)
           | Some SignedBeaconBlock_impl \<Rightarrow>
               SignedBeaconBlock_impl ctx blockID w))"

definition Erroring_BeaconStateRoot ::
  "'w Erroring \<Rightarrow> Context \<Rightarrow> string \<Rightarrow> float64 \<Rightarrow> 'w \<Rightarrow> (Root ptr \<times> error) \<times> 'w" where
  "Erroring_BeaconStateRoot s ctx stateID roll w =
     (case maybeError s ctx roll of
        Some err \<Rightarrow> ((None, Some err), w)
      | None \<Rightarrow>
          (case BeaconStateRootProvider (next s) of
             None \<Rightarrow>
               ((None, Some (Name (next s) @ ''@'' @
                  Address (next s) @ '' does not support this call'')), w)
           | Some BeaconStateRoot_impl \<Rightarrow>
               BeaconStateRoot_impl ctx stateID w))"

text \<open>
  The method set of \<open>*Erroring\<close> as one function: a \<open>call\<close> names a method with its
  arguments, a \<open>reply\<close> holds the results of that method. \<open>perform\<close> runs the method
  of the erroring client, \<open>invoke\<close> is the same call on a client of the interface
  (\<open>None\<close> when the client lacks the capability), \<open>zero_reply\<close> is the zero value of
  the method's result type beside a given error.
\<close>

datatype 'w call =
    PrysmAttesterDuties_call Context Epoch "BLSPubKey slice"
  | PrysmProposerDuties_call Context Epoch "BLSPubKey slice"
  | PrysmValidatorBalances_call Context string "BLSPubKey slice"
  | EpochFromStateID_call Context string
  | SlotFromStateID_call Context string
  | NodeVersion_call Context
  | SlotDuration_call Context
  | SlotsPerEpoch_call Context
  | FarFutureEpoch_call Context
  | GenesisValidatorsRoot_call Context
  | TargetAggregatorsPerCommittee_call Context
  | BeaconAttesterDomain_call Context
  | BeaconProposerDomain_call Context
  | RANDAODomain_call Context
  | DepositDomain_call Context
  | VoluntaryExitDomain_call Context
  | SelectionProofDomain_call Context
  | AggregateAndProofDomain_call Context
  | AggregateAttestation_call Context Slot Root
  | SubmitAggregateAttestations_call Context "SignedAggregateAndProof ptr slice"
  | AttestationData_call Context Slot CommitteeIndex
  | AttestationPool_call Context Slot
  | SubmitAttestations_call Context "Attestation ptr slice"
  | AttesterDuties_call Context Epoch "ValidatorIndex slice"
  | BeaconBlockHeader_call Context string
  | BeaconCommittees_call Context string
  | BeaconBlockProposal_call Context Slot BLSSignature "byte slice"
  | SubmitBeaconBlock_call Context "SignedBeaconBlock ptr"
  | SubmitBeaconCommitteeSubscriptions_call Context "BeaconCommitteeSubscription ptr slice"
  | BeaconState_call Context string
  | Events_call Context "string slice" "'w EventHandlerFunc"
  | Finality_call Context string
  | Fork_call Context string
  | ForkSchedule_call Context
  | Genesis_call Context
  | NodeSyncing_call Context
  | ProposerDuties_call Context Epoch "ValidatorIndex slice"
  | Spec_call Context
  | ValidatorBalances_call Context string "ValidatorIndex slice"
  | Validators_call Context string "ValidatorIndex slice"
  | ValidatorsByPubKey_call Context string "BLSPubKey slice"
  | SubmitVoluntaryExit_call Context "SignedVoluntaryExit ptr"
  | Domain_call Context DomainType Epoch
  | GenesisTime_call Context
  | DepositContract_call Context
  | SignedBeaconBlock_call Context string
  | BeaconStateRoot_call Context string

datatype reply =
    PrysmAttesterDuties_reply "AttesterDuty ptr slice" error
  | PrysmProposerDuties_reply "ProposerDuty ptr slice" error
  | PrysmValidatorBalances_reply "(ValidatorIndex, Gwei) gomap" error
  | EpochFromStateID_reply Epoch error
  | SlotFromStateID_reply Slot error
  | NodeVersion_reply string error
  | SlotDuration_reply Duration error
  | SlotsPerEpoch_reply uint64 error
  | FarFutureEpoch_reply Epoch error
  | GenesisValidatorsRoot_reply "byte slice" error
  | TargetAggregatorsPerCommittee_reply uint64 error
  | BeaconAttesterDomain_reply DomainType error
  | BeaconProposerDomain_reply DomainType error
  | RANDAODomain_reply DomainType error
  | DepositDomain_reply DomainType error
  | VoluntaryExitDomain_reply DomainType error
  | SelectionProofDomain_reply DomainType error
  | AggregateAndProofDomain_reply DomainType error
  | AggregateAttestation_reply "Attestation ptr" error
  | SubmitAggregateAttestations_reply error
  | AttestationData_reply "AttestationData ptr" error
  | AttestationPool_reply "Attestation ptr slice" error
  | SubmitAttestations_reply error
  | AttesterDuties_reply "AttesterDuty ptr slice" error
  | BeaconBlockHeader_reply "BeaconBlockHeader ptr" error
  | BeaconCommittees_reply "BeaconCommittee ptr slice" error
  | BeaconBlockProposal_reply "BeaconBlock ptr" error
  | SubmitBeaconBlock_reply error
  | SubmitBeaconCommitteeSubscriptions_reply error
  | BeaconState_reply "BeaconState ptr" error
  | Events_reply error
  | Finality_reply "Finality ptr" error
  | Fork_reply "Fork ptr" error
  | ForkSchedule_reply "Fork ptr slice" error
  | Genesis_reply "Genesis ptr" error
  | NodeSyncing_reply "SyncState ptr" error
  | ProposerDuties_reply "ProposerDuty ptr slice" error
  | Spec_reply "(string, Any) gomap" error
  | ValidatorBalances_reply "(ValidatorIndex, Gwei) gomap" error
  | Validators_reply "(ValidatorIndex, Validator ptr) gomap" error
  | ValidatorsByPubKey_reply "(ValidatorIndex, Validator ptr) gomap" error
  | SubmitVoluntaryExit_reply error
  | Domain_reply Domain error
  | GenesisTime_reply Time error
  | DepositContract_reply "DepositContract ptr" error
  | SignedBeaconBlock_reply "SignedBeaconBlock ptr" error
  | BeaconStateRoot_reply "Root ptr" error

primrec perform :: "'w Erroring \<Rightarrow> 'w call \<Rightarrow> float64 \<Rightarrow> 'w \<Rightarrow> reply \<times> 'w" where
  "perform s (PrysmAttesterDuties_call ctx epoch validatorPubKeys) roll w =
     (case Erroring_PrysmAttesterDuties s ctx epoch validatorPubKeys roll w of
        ((v, e), w') \<Rightarrow> (PrysmAttesterDuties_reply v e, w'))"
| "perform s (PrysmProposerDuties_call ctx epoch validatorPubKeys) roll w =
     (case Erroring_PrysmProposerDuties s ctx epoch validatorPubKeys roll w of
        ((v, e), w') \<Rightarrow> (PrysmProposerDuties_reply v e, w'))"
| "perform s (PrysmValidatorBalances_call ctx stateID validatorPubKeys) roll w =
     (case Erroring_PrysmValidatorBalances s ctx stateID validatorPubKeys roll w of
        ((v, e), w') \<Rightarrow> (PrysmValidatorBalances_reply v e, w'))"
| "perform s (EpochFromStateID_call ctx stateID) roll w =
     (case Erroring_EpochFromStateID s ctx stateID roll w of
        ((v, e), w') \<Rightarrow> (EpochFromStateID_reply v e, w'))"
| "perform s (SlotFromStateID_call ctx stateID) roll w =
     (case Erroring_SlotFromStateID s ctx stateID roll w of
        ((v, e), w') \<Rightarrow> (SlotFromStateID_reply v e, w'))"
| "perform s (NodeVersion_call ctx) roll w =
     (case Erroring_NodeVersion s ctx roll w of
        ((v, e), w') \<Rightarrow> (NodeVersion_reply v e, w'))"
| "perform s (SlotDuration_call ctx) roll w =
     (case Erroring_SlotDuration s ctx roll w of
        ((v, e), w') \<Rightarrow> (SlotDuration_reply v e, w'))"
| "perform s (SlotsPerEpoch_call ctx) roll w =
     (case Erroring_SlotsPerEpoch s ctx roll w of
        ((v, e), w') \<Rightarrow> (SlotsPerEpoch_reply v e, w'))"
| "perform s (FarFutureEpoch_call ctx) roll w =
     (case Erroring_FarFutureEpoch s ctx roll w of
        ((v, e), w') \<Rightarrow> (FarFutureEpoch_reply v e, w'))"
| "perform s (GenesisValidatorsRoot_call ctx) roll w =
     (case Erroring_GenesisValidatorsRoot s ctx roll w of
        ((v, e), w') \<Rightarrow> (GenesisValidatorsRoot_reply v e, w'))"
| "perform s (TargetAggregatorsPerCommittee_call ctx) roll w =
     (case Erroring_TargetAggregatorsPerCommittee s ctx roll w of
        ((v, e), w') \<Rightarrow> (TargetAggregatorsPerCommittee_reply v e, w'))"
| "perform s (BeaconAttesterDomain_call ctx) roll w =
     (case Erroring_BeaconAttesterDomain s ctx roll w of
        ((v, e), w') \<Rightarrow> (BeaconAttesterDomain_reply v e, w'))"
| "perform s (BeaconProposerDomain_call ctx) roll w =
     (case Erroring_BeaconProposerDomain s ctx roll w of
        ((v, e), w') \<Rightarrow> (BeaconProposerDomain_reply v e, w'))"
| "perform s (RANDAODomain_call ctx) roll w =
     (case Erroring_RANDAODomain s ctx roll w of
        ((v, e), w') \<Rightarrow> (RANDAODomain_reply v e, w'))"
| "perform s (DepositDomain_call ctx) roll w =
     (case Erroring_DepositDomain s ctx roll w of
        ((v, e), w') \<Rightarrow> (DepositDomain_reply v e, w'))"
| "perform s (VoluntaryExitDomain_call ctx) roll w =
     (case Erroring_VoluntaryExitDomain s ctx roll w of
        ((v, e), w') \<Rightarrow> (VoluntaryExitDomain_reply v e, w'))"
| "perform s (SelectionProofDomain_call ctx) roll w =
     (case Erroring_SelectionProofDomain s ctx roll w of
        ((v, e), w') \<Rightarrow> (SelectionProofDomain_reply v e, w'))"
| "perform s (AggregateAndProofDomain_call ctx) roll w =
     (case Erroring_AggregateAndProofDomain s ctx roll w of
        ((v, e), w') \<Rightarrow> (AggregateAndProofDomain_reply v e, w'))"
| "perform s (AggregateAttestation_call ctx slot attestationDataRoot) roll w =
     (case Erroring_AggregateAttestation s ctx slot attestationDataRoot roll w of
        ((v, e), w') \<Rightarrow> (AggregateAttestation_reply v e, w'))"
| "perform s (SubmitAggregateAttestations_call ctx aggregateAndProofs) roll w =
     (case Erroring_SubmitAggregateAttestations s ctx aggregateAndProofs roll w of
        (e, w') \<Rightarrow> (SubmitAggregateAttestations_reply e, w'))"
| "perform s (AttestationData_call ctx slot committeeIndex) roll w =
     (case Erroring_AttestationData s ctx slot committeeIndex roll w of
        ((v, e), w') \<Rightarrow> (AttestationData_reply v e, w'))"
| "perform s (AttestationPool_call ctx slot) roll w =
     (case Erroring_AttestationPool s ctx slot roll w of
        ((v, e), w') \<Rightarrow> (AttestationPool_reply v e, w'))"
| "perform s (SubmitAttestations_call ctx attestations) roll w =
     (case Erroring_SubmitAttestations s ctx attestations roll w of
        (e, w') \<Rightarrow> (SubmitAttestations_reply e, w'))"
| "perform s (AttesterDuties_call ctx epoch validatorIndices) roll w =
     (case Erroring_AttesterDuties s ctx epoch validatorIndices roll w of
        ((v, e), w') \<Rightarrow> (AttesterDuties_reply v e, w'))"
| "perform s (BeaconBlockHeader_call ctx blockID) roll w =
     (case Erroring_BeaconBlockHeader s ctx blockID roll w of
        ((v, e), w') \<Rightarrow> (BeaconBlockHeader_reply v e, w'))"
| "perform s (BeaconCommittees_call ctx stateID) roll w =
     (case Erroring_BeaconCommittees s ctx stateID roll w of
        ((v, e), w') \<Rightarrow> (BeaconCommittees_reply v e, w'))"
| "perform s (BeaconBlockProposal_call ctx slot randaoReveal graffiti) roll w =
     (case Erroring_BeaconBlockProposal s ctx slot randaoReveal graffiti roll w of
        ((v, e), w') \<Rightarrow> (BeaconBlockProposal_reply v e, w'))"
| "perform s (SubmitBeaconBlock_call ctx block) roll w =
     (case Erroring_SubmitBeaconBlock s ctx block roll w of
        (e, w') \<Rightarrow> (SubmitBeaconBlock_reply e, w'))"
| "perform s (SubmitBeaconCommitteeSubscriptions_call ctx subscriptions) roll w =
     (case Erroring_SubmitBeaconCommitteeSubscriptions s ctx subscriptions roll w of
        (e, w') \<Rightarrow> (SubmitBeaconCommitteeSubscriptions_reply e, w'))"
| "perform s (BeaconState_call ctx stateID) roll w =
     (case Erroring_BeaconState s ctx stateID roll w of
        ((v, e), w') \<Rightarrow> (BeaconState_reply v e, w'))"
| "perform s (Events_call ctx topics handler) roll w =
     (case Erroring_Events s ctx topics handler roll w of
        (e, w') \<Rightarrow> (Events_reply e, w'))"
| "perform s (Finality_call ctx stateID) roll w =
     (case Erroring_Finality s ctx stateID roll w of
        ((v, e), w') \<Rightarrow> (Finality_reply v e, w'))"
| "perform s (Fork_call ctx stateID) roll w =
     (case Erroring_Fork s ctx stateID roll w of
        ((v, e), w') \<Rightarrow> (Fork_reply v e, w'))"
| "perform s (ForkSchedule_call ctx) roll w =
     (case Erroring_ForkSchedule s ctx roll w of
        ((v, e), w') \<Rightarrow> (ForkSchedule_reply v e, w'))"
| "perform s (Genesis_call ctx) roll w =
     (case Erroring_Genesis s ctx roll w of
        ((v, e), w') \<Rightarrow> (Genesis_reply v e, w'))"
| "perform s (NodeSyncing_call ctx) roll w =
     (case Erroring_NodeSyncing s ctx roll w of
        ((v, e), w') \<Rightarrow> (NodeSyncing_reply v e, w'))"
| "perform s (ProposerDuties_call ctx epoch validatorIndices) roll w =
     (case Erroring_ProposerDuties s ctx epoch validatorIndices roll w of
        ((v, e), w') \<Rightarrow> (ProposerDuties_reply v e, w'))"
| "perform s (Spec_call ctx) roll w =
     (case Erroring_Spec s ctx roll w of
        ((v, e), w') \<Rightarrow> (Spec_reply v e, w'))"
| "perform s (ValidatorBalances_call ctx stateID validatorIndices) roll w =
     (case Erroring_ValidatorBalances s ctx stateID validatorIndices roll w of
        ((v, e), w') \<Rightarrow> (ValidatorBalances_reply v e, w'))"
| "perform s (Validators_call ctx stateID validatorIndices) roll w =
     (case Erroring_Validators s ctx stateID validatorIndices roll w of
        ((v, e), w') \<Rightarrow> (Validators_reply v e, w'))"
| "perform s (ValidatorsByPubKey_call ctx stateID validatorPubKeys) roll w =
     (case Erroring_ValidatorsByPubKey s ctx stateID validatorPubKeys roll w of
        ((v, e), w') \<Rightarrow> (ValidatorsByPubKey_reply v e, w'))"
| "perform s (SubmitVoluntaryExit_call ctx voluntaryExit) roll w =
     (case Erroring_SubmitVoluntaryExit s ctx voluntaryExit roll w of
        (e, w') \<Rightarrow> (SubmitVoluntaryExit_reply e, w'))"
| "perform s (Domain_call ctx domainType epoch) roll w =
     (case Erroring_Domain s ctx domainType epoch roll w of
        ((v, e), w') \<Rightarrow> (Domain_reply v e, w'))"
| "perform s (GenesisTime_call ctx) roll w =
     (case Erroring_GenesisTime s ctx roll w of
        ((v, e), w') \<Rightarrow> (GenesisTime_reply v e, w'))"
| "perform s (DepositContract_call ctx) roll w =
     (case Erroring_DepositContract s ctx roll w of
        ((v, e), w') \<Rightarrow> (DepositContract_reply v e, w'))"
| "perform s (SignedBeaconBlock_call ctx blockID) roll w =
     (case Erroring_SignedBeaconBlock s ctx blockID roll w of
        ((v, e), w') \<Rightarrow> (SignedBeaconBlock_reply v e, w'))"
| "perform s (BeaconStateRoot_call ctx stateID) roll w =
     (case Erroring_BeaconStateRoot s ctx stateID roll w of
        ((v, e), w') \<Rightarrow> (BeaconStateRoot_reply v e, w'))"

primrec invoke :: "'w Service \<Rightarrow> 'w call \<Rightarrow> ('w \<Rightarrow> reply \<times> 'w) option" where
  "invoke n (PrysmAttesterDuties_call ctx epoch validatorPubKeys) =
     map_option
       (\<lambda>f w. (case f ctx epoch validatorPubKeys w of
        ((v, e), w') \<Rightarrow> (PrysmAttesterDuties_reply v e, w')))
       (PrysmAttesterDutiesProvider n)"
| "invoke n (PrysmProposerDuties_call ctx epoch validatorPubKeys) =
     map_option
       (\<lambda>f w. (case f ctx epoch validatorPubKeys w of
        ((v, e), w') \<Rightarrow> (PrysmProposerDuties_reply v e, w')))
       (PrysmProposerDutiesProvider n)"
| "invoke n (PrysmValidatorBalances_call ctx stateID validatorPubKeys) =
     map_option
       (\<lambda>f w. (case f ctx stateID validatorPubKeys w of
        ((v, e), w') \<Rightarrow> (PrysmValidatorBalances_reply v e, w')))
       (PrysmValidatorBalancesProvider n)"
| "invoke n (EpochFromStateID_call ctx stateID) =
     map_option
       (\<lambda>f w. (case f ctx stateID w of
        ((v, e), w') \<Rightarrow> (EpochFromStateID_reply v e, w')))
       (EpochFromStateIDProvider n)"
| "invoke n (SlotFromStateID_call ctx stateID) =
     map_option
       (\<lambda>f w. (case f ctx stateID w of
        ((v, e), w') \<Rightarrow> (SlotFromStateID_reply v e, w')))
       (SlotFromStateIDProvider n)"
| "invoke n (NodeVersion_call ctx) =
     map_option
       (\<lambda>f w. (case f ctx w of
        ((v, e), w') \<Rightarrow> (NodeVersion_reply v e, w')))
       (NodeVersionProvider n)"
| "invoke n (SlotDuration_call ctx) =
     map_option
       (\<lambda>f w. (case f ctx w of
        ((v, e), w') \<Rightarrow> (SlotDuration_reply v e, w')))
       (SlotDurationProvider n)"
| "invoke n (SlotsPerEpoch_call ctx) =
     map_option
       (\<lambda>f w. (case f ctx w of
        ((v, e), w') \<Rightarrow> (SlotsPerEpoch_reply v e, w')))
       (SlotsPerEpochProvider n)"
| "invoke n (FarFutureEpoch_call ctx) =
     map_option
       (\<lambda>f w. (case f ctx w of
        ((v, e), w') \<Rightarrow> (FarFutureEpoch_reply v e, w')))
       (FarFutureEpochProvider n)"
| "invoke n (GenesisValidatorsRoot_call ctx) =
     map_option
       (\<lambda>f w. (case f ctx w of
        ((v, e), w') \<Rightarrow> (GenesisValidatorsRoot_reply v e, w')))
       (GenesisValidatorsRootProvider n)"
| "invoke n (TargetAggregatorsPerCommittee_call ctx) =
     map_option
       (\<lambda>f w. (case f ctx w of
        ((v, e), w') \<Rightarrow> (TargetAggregatorsPerCommittee_reply v e, w')))
       (TargetAggregatorsPerCommitteeProvider n)"
| "invoke n (BeaconAttesterDomain_call ctx) =
     map_option
       (\<lambda>f w. (case f ctx w of
        ((v, e), w') \<Rightarrow> (BeaconAttesterDomain_reply v e, w')))
       (BeaconAttesterDomainProvider n)"
| "invoke n (BeaconProposerDomain_call ctx) =
     map_option
       (\<lambda>f w. (case f ctx w of
        ((v, e), w') \<Rightarrow> (BeaconProposerDomain_reply v e, w')))
       (BeaconProposerDomainProvider n)"
| "invoke n (RANDAODomain_call ctx) =
     map_option
       (\<lambda>f w. (case f ctx w of
        ((v, e), w') \<Rightarrow> (RANDAODomain_reply v e, w')))
       (RANDAODomainProvider n)"
| "invoke n (DepositDomain_call ctx) =
     map_option
       (\<lambda>f w. (case f ctx w of
        ((v, e), w') \<Rightarrow> (DepositDomain_reply v e, w')))
       (DepositDomainProvider n)"
| "invoke n (VoluntaryExitDomain_call ctx) =
     map_option
       (\<lambda>f w. (case f ctx w of
        ((v, e), w') \<Rightarrow> (VoluntaryExitDomain_reply v e, w')))
       (VoluntaryExitDomainProvider n)"
| "invoke n (SelectionProofDomain_call ctx) =
     map_option
       (\<lambda>f w. (case f ctx w of
        ((v, e), w') \<Rightarrow> (SelectionProofDomain_reply v e, w')))
       (SelectionProofDomainProvider n)"
| "invoke n (AggregateAndProofDomain_call ctx) =
     map_option
       (\<lambda>f w. (case f ctx w of
        ((v, e), w') \<Rightarrow> (AggregateAndProofDomain_reply v e, w')))
       (AggregateAndProofDomainProvider n)"
| "invoke n (AggregateAttestation_call ctx slot attestationDataRoot) =
     map_option
       (\<lambda>f w. (case f ctx slot attestationDataRoot w of
        ((v, e), w') \<Rightarrow> (AggregateAttestation_reply v e, w')))
       (AggregateAttestationProvider n)"
| "invoke n (SubmitAggregateAttestations_call ctx aggregateAndProofs) =
     map_option
       (\<lambda>f w. (case f ctx aggregateAndProofs w of
        (e, w') \<Rightarrow> (SubmitAggregateAttestations_reply e, w')))
       (AggregateAttestationsSubmitter n)"
| "invoke n (AttestationData_call ctx slot committeeIndex) =
     map_option
       (\<lambda>f w. (case f ctx slot committeeIndex w of
        ((v, e), w') \<Rightarrow> (AttestationData_reply v e, w')))
       (AttestationDataProvider n)"
| "invoke n (AttestationPool_call ctx slot) =
     map_option
       (\<lambda>f w. (case f ctx slot w of
        ((v, e), w') \<Rightarrow> (AttestationPool_reply v e, w')))
       (AttestationPoolProvider n)"
| "invoke n (SubmitAttestations_call ctx attestations) =
     map_option
       (\<lambda>f w. (case f ctx attestations w of
        (e, w') \<Rightarrow> (SubmitAttestations_reply e, w')))
       (AttestationsSubmitter n)"
| "invoke n (AttesterDuties_call ctx epoch validatorIndices) =
     map_option
       (\<lambda>f w. (case f ctx epoch validatorIndices w of
        ((v, e), w') \<Rightarrow> (AttesterDuties_reply v e, w')))
       (AttesterDutiesProvider n)"
| "invoke n (BeaconBlockHeader_call ctx blockID) =
     map_option
       (\<lambda>f w. (case f ctx blockID w of
        ((v, e), w') \<Rightarrow> (BeaconBlockHeader_reply v e, w')))
       (BeaconBlockHeadersProvider n)"
| "invoke n (BeaconCommittees_call ctx stateID) =
     map_option
       (\<lambda>f w. (case f ctx stateID w of
        ((v, e), w') \<Rightarrow> (BeaconCommittees_reply v e, w')))
       (BeaconCommitteesProvider n)"
| "invoke n (BeaconBlockProposal_call ctx slot randaoReveal graffiti) =
     map_option
       (\<lambda>f w. (case f ctx slot randaoReveal graffiti w of
        ((v, e), w') \<Rightarrow> (BeaconBlockProposal_reply v e, w')))
       (BeaconBlockProposalProvider n)"
| "invoke n (SubmitBeaconBlock_call ctx block) =
     map_option
       (\<lambda>f w. (case f ctx block w of
        (e, w') \<Rightarrow> (SubmitBeaconBlock_reply e, w')))
       (BeaconBlockSubmitter n)"
| "invoke n (SubmitBeaconCommitteeSubscriptions_call ctx subscriptions) =
     map_option
       (\<lambda>f w. (case f ctx subscriptions w of
        (e, w') \<Rightarrow> (SubmitBeaconCommitteeSubscriptions_reply e, w')))
       (BeaconCommitteeSubscriptionsSubmitter n)"
| "invoke n (BeaconState_call ctx stateID) =
     map_option
       (\<lambda>f w. (case f ctx stateID w of
        ((v, e), w') \<Rightarrow> (BeaconState_reply v e, w')))
       (BeaconStateProvider n)"
| "invoke n (Events_call ctx topics handler) =
     map_option
       (\<lambda>f w. (case f ctx topics handler w of
        (e, w') \<Rightarrow> (Events_reply e, w')))
       (EventsProvider n)"
| "invoke n (Finality_call ctx stateID) =
     map_option
       (\<lambda>f w. (case f ctx stateID w of
        ((v, e), w') \<Rightarrow> (Finality_reply v e, w')))
       (FinalityProvider n)"
| "invoke n (Fork_call ctx stateID) =
     map_option
       (\<lambda>f w. (case f ctx stateID w of
        ((v, e), w') \<Rightarrow> (Fork_reply v e, w')))
       (ForkProvider n)"
| "invoke n (ForkSchedule_call ctx) =
     map_option
       (\<lambda>f w. (case f ctx w of
        ((v, e), w') \<Rightarrow> (ForkSchedule_reply v e, w')))
       (ForkScheduleProvider n)"
| "invoke n (Genesis_call ctx) =
     map_option
       (\<lambda>f w. (case f ctx w of
        ((v, e), w') \<Rightarrow> (Genesis_reply v e, w')))
       (GenesisProvider n)"
| "invoke n (NodeSyncing_call ctx) =
     map_option
       (\<lambda>f w. (case f ctx w of
        ((v, e), w') \<Rightarrow> (NodeSyncing_reply v e, w')))
       (NodeSyncingProvider n)"
| "invoke n (ProposerDuties_call ctx epoch validatorIndices) =
     map_option
       (\<lambda>f w. (case f ctx epoch validatorIndices w of
        ((v, e), w') \<Rightarrow> (ProposerDuties_reply v e, w')))
       (ProposerDutiesProvider n)"
| "invoke n (Spec_call ctx) =
     map_option
       (\<lambda>f w. (case f ctx w of
        ((v, e), w') \<Rightarrow> (Spec_reply v e, w')))
       (SpecProvider n)"
| "invoke n (ValidatorBalances_call ctx stateID validatorIndices) =
     map_option
       (\<lambda>f w. (case f ctx stateID validatorIndices w of
        ((v, e), w') \<Rightarrow> (ValidatorBalances_reply v e, w')))
       (ValidatorBalancesProvider n)"
| "invoke n (Validators_call ctx stateID validatorIndices) =
     map_option
       (\<lambda>p w. (case fst p ctx stateID validatorIndices w of
        ((v, e), w') \<Rightarrow> (Validators_reply v e, w')))
       (ValidatorsProvider n)"
| "invoke n (ValidatorsByPubKey_call ctx stateID validatorPubKeys) =
     map_option
       (\<lambda>p w. (case snd p ctx stateID validatorPubKeys w of
        ((v, e), w') \<Rightarrow> (ValidatorsByPubKey_reply v e, w')))
       (ValidatorsProvider n)"
| "invoke n (SubmitVoluntaryExit_call ctx voluntaryExit) =
     map_option
       (\<lambda>f w. (case f ctx voluntaryExit w of
        (e, w') \<Rightarrow> (SubmitVoluntaryExit_reply e, w')))
       (VoluntaryExitSubmitter n)"
| "invoke n (Domain_call ctx domainType epoch) =
     map_option
       (\<lambda>f w. (case f ctx domainType epoch w of
        ((v, e), w') \<Rightarrow> (Domain_reply v e, w')))
       (DomainProvider n)"
| "invoke n (GenesisTime_call ctx) =
     map_option
       (\<lambda>f w. (case f ctx w of
        ((v, e), w') \<Rightarrow> (GenesisTime_reply v e, w')))
       (GenesisTimeProvider n)"
| "invoke n (DepositContract_call ctx) =
     map_option
       (\<lambda>f w. (case f ctx w of
        ((v, e), w') \<Rightarrow> (DepositContract_reply v e, w')))
       (DepositContractProvider n)"
| "invoke n (SignedBeaconBlock_call ctx blockID) =
     map_option
       (\<lambda>f w. (case f ctx blockID w of
        ((v, e), w') \<Rightarrow> (SignedBeaconBlock_reply v e, w')))
       (SignedBeaconBlockProvider n)"
| "invoke n (BeaconStateRoot_call ctx stateID) =
     map_option
       (\<lambda>f w. (case f ctx stateID w of
        ((v, e), w') \<Rightarrow> (BeaconStateRoot_reply v e, w')))
       (BeaconStateRootProvider n)"

primrec zero_reply :: "'w call \<Rightarrow> error \<Rightarrow> reply" where
  "zero_reply (PrysmAttesterDuties_call ctx epoch validatorPubKeys) e = PrysmAttesterDuties_reply None e"
| "zero_reply (PrysmProposerDuties_call ctx epoch validatorPubKeys) e = PrysmProposerDuties_reply None e"
| "zero_reply (PrysmValidatorBalances_call ctx stateID validatorPubKeys) e = PrysmValidatorBalances_reply None e"
| "zero_reply (EpochFromStateID_call ctx stateID) e = EpochFromStateID_reply 0 e"
| "zero_reply (SlotFromStateID_call ctx stateID) e = SlotFromStateID_reply 0 e"
| "zero_reply (NodeVersion_call ctx) e = NodeVersion_reply '''' e"
| "zero_reply (SlotDuration_call ctx) e = SlotDuration_reply 0 e"
| "zero_reply (SlotsPerEpoch_call ctx) e = SlotsPerEpoch_reply 0 e"
| "zero_reply (FarFutureEpoch_call ctx) e = FarFutureEpoch_reply 0 e"
| "zero_reply (GenesisValidatorsRoot_call ctx) e = GenesisValidatorsRoot_reply None e"
| "zero_reply (TargetAggregatorsPerCommittee_call ctx) e = TargetAggregatorsPerCommittee_reply 0 e"
| "zero_reply (BeaconAttesterDomain_call ctx) e = BeaconAttesterDomain_reply 0 e"
| "zero_reply (BeaconProposerDomain_call ctx) e = BeaconProposerDomain_reply 0 e"
| "zero_reply (RANDAODomain_call ctx) e = RANDAODomain_reply 0 e"
| "zero_reply (DepositDomain_call ctx) e = DepositDomain_reply 0 e"
| "zero_reply (VoluntaryExitDomain_call ctx) e = VoluntaryExitDomain_reply 0 e"
| "zero_reply (SelectionProofDomain_call ctx) e = SelectionProofDomain_reply 0 e"
| "zero_reply (AggregateAndProofDomain_call ctx) e = AggregateAndProofDomain_reply 0 e"
| "zero_reply (AggregateAttestation_call ctx slot attestationDataRoot) e = AggregateAttestation_reply None e"
| "zero_reply (SubmitAggregateAttestations_call ctx aggregateAndProofs) e = SubmitAggregateAttestations_reply e"
| "zero_reply (AttestationData_call ctx slot committeeIndex) e = AttestationData_reply None e"
| "zero_reply (AttestationPool_call ctx slot) e = AttestationPool_reply None e"
| "zero_reply (SubmitAttestations_call ctx attestations) e = SubmitAttestations_reply e"
| "zero_reply (AttesterDuties_call ctx epoch validatorIndices) e = AttesterDuties_reply None e"
| "zero_reply (BeaconBlockHeader_call ctx blockID) e = BeaconBlockHeader_reply None e"
| "zero_reply (BeaconCommittees_call ctx stateID) e = BeaconCommittees_reply None e"
| "zero_reply (BeaconBlockProposal_call ctx slot randaoReveal graffiti) e = BeaconBlockProposal_reply None e"
| "zero_reply (SubmitBeaconBlock_call ctx block) e = SubmitBeaconBlock_reply e"
| "zero_reply (SubmitBeaconCommitteeSubscriptions_call ctx subscriptions) e = SubmitBeaconCommitteeSubscriptions_reply e"
| "zero_reply (BeaconState_call ctx stateID) e = BeaconState_reply None e"
| "zero_reply (Events_call ctx topics handler) e = Events_reply e"
| "zero_reply (Finality_call ctx stateID) e = Finality_reply None e"
| "zero_reply (Fork_call ctx stateID) e = Fork_reply None e"
| "zero_reply (ForkSchedule_call ctx) e = ForkSchedule_reply None e"
| "zero_reply (Genesis_call ctx) e = Genesis_reply None e"
| "zero_reply (NodeSyncing_call ctx) e = NodeSyncing_reply None e"
| "zero_reply (ProposerDuties_call ctx epoch validatorIndices) e = ProposerDuties_reply None e"
| "zero_reply (Spec_call ctx) e = Spec_reply None e"
| "zero_reply (ValidatorBalances_call ctx stateID validatorIndices) e = ValidatorBalances_reply None e"
| "zero_reply (Validators_call ctx stateID validatorIndices) e = Validators_reply None e"
| "zero_reply (ValidatorsByPubKey_call ctx stateID validatorPubKeys) e = ValidatorsByPubKey_reply None e"
| "zero_reply (SubmitVoluntaryExit_call ctx voluntaryExit) e = SubmitVoluntaryExit_reply e"
| "zero_reply (Domain_call ctx domainType epoch) e = Domain_reply 0 e"
| "zero_reply (GenesisTime_call ctx) e = GenesisTime_reply Time_zero e"
| "zero_reply (DepositContract_call ctx) e = DepositContract_reply None e"
| "zero_reply (SignedBeaconBlock_call ctx blockID) e = SignedBeaconBlock_reply None e"
| "zero_reply (BeaconStateRoot_call ctx stateID) e = BeaconStateRoot_reply None e"

section \<open>The multi-client service\<close>

text \<open>
  \<open>multi.Service\<close> holds the roster \<open>activeClients\<close> behind the reader/writer mutex
  \<open>clientMu\<close>. What a call does to the mutex and to the clients is returned as a trace:
  \<open>RLock\<close> and \<open>RUnlock\<close> on \<open>clientMu\<close>, and \<open>ClientCall i\<close> for a call of the
  requested method on \<open>activeClients[i]\<close>.
\<close>

datatype event = RLock | RUnlock | ClientCall nat

text \<open>A Go call returns its results or panics.\<close>

datatype 'a outcome = Returned 'a | Panicked

record 'w multi_Service =
  activeClients :: "'w Service list"

text \<open>
  \<open>Service.SlotDuration\<close>. The deferred \<open>RUnlock\<close> runs when the function is left, by
  a return or by a panic, after everything else. The type assertion
  \<open>s.activeClients[0].(eth2client.SlotDurationProvider)\<close> has the one-result form,
  which panics when the client lacks the interface.
\<close>

definition Service_SlotDuration ::
  "'w multi_Service \<Rightarrow> Context \<Rightarrow> 'w \<Rightarrow> ((Duration \<times> error) outcome \<times> 'w) \<times> event list" where
  "Service_SlotDuration s ctx w =
     (case (if length (activeClients s) = 0
            then ((Returned (0, Some ''no active Ethereum 2 clients''), w), [])
            else (case SlotDurationProvider (activeClients s ! 0) of
                    None \<Rightarrow> ((Panicked, w), [])
                  | Some SlotDuration_impl \<Rightarrow>
                      (case SlotDuration_impl ctx w of
                         (r, w') \<Rightarrow> ((Returned r, w'), [ClientCall 0]))))
      of (r, body) \<Rightarrow> (r, [RLock] @ body @ [RUnlock]))"

text \<open>
  \<open>calls_unlocked h t\<close>: along the trace \<open>t\<close>, started with \<open>h\<close> read locks held, every
  client call happens while no read lock is held.
\<close>

fun calls_unlocked :: "nat \<Rightarrow> event list \<Rightarrow> bool" where
  "calls_unlocked h [] = True"
| "calls_unlocked h (RLock # t) = calls_unlocked (Suc h) t"
| "calls_unlocked h (RUnlock # t) = calls_unlocked (h - 1) t"
| "calls_unlocked h (ClientCall i # t) = (h = 0 \<and> calls_unlocked h t)"

section \<open>Clients for the examples\<close>

text \<open>
  The state behind the example clients is the number of calls they have served.
  \<open>bare_client\<close> implements \<open>Name\<close> and \<open>Address\<close> only.
\<close>

definition bare_client :: "string \<Rightarrow> string \<Rightarrow> nat Service" where
  "bare_client name address =
     \<lparr>Name = name,
      Address = address,
      PrysmAttesterDutiesProvider = None,
      PrysmProposerDutiesProvider = None,
      PrysmValidatorBalancesProvider = None,
      EpochFromStateIDProvider = None,
      SlotFromStateIDProvider = None,
      NodeVersionProvider = None,
      SlotDurationProvider = None,
      SlotsPerEpochProvider = None,
      FarFutureEpochProvider = None,
      GenesisValidatorsRootProvider = None,
      TargetAggregatorsPerCommitteeProvider = None,
      BeaconAttesterDomainProvider = None,
      BeaconProposerDomainProvider = None,
      RANDAODomainProvider = None,
      DepositDomainProvider = None,
      VoluntaryExitDomainProvider = None,
      SelectionProofDomainProvider = None,
      AggregateAndProofDomainProvider = None,
      AggregateAttestationProvider = None,
      AggregateAttestationsSubmitter = None,
      AttestationDataProvider = None,
      AttestationPoolProvider = None,
      AttestationsSubmitter = None,
      AttesterDutiesProvider = None,
      BeaconBlockHeadersProvider = None,
      BeaconCommitteesProvider = None,
      BeaconBlockProposalProvider = None,
      BeaconBlockSubmitter = None,
      BeaconCommitteeSubscriptionsSubmitter = None,
      BeaconStateProvider = None,
      EventsProvider = None,
      FinalityProvider = None,
      ForkProvider = None,
      ForkScheduleProvider = None,
      GenesisProvider = None,
      NodeSyncingProvider = None,
      ProposerDutiesProvider = None,
      SpecProvider = None,
      ValidatorBalancesProvider = None,
      ValidatorsProvider = None,
      VoluntaryExitSubmitter = None,
      DomainProvider = None,
      GenesisTimeProvider = None,
      DepositContractProvider = None,
      SignedBeaconBlockProvider = None,
      BeaconStateRootProvider = None\<rparr>"

text \<open>A client that answers \<open>SlotDuration\<close> with 12 seconds and accepts attestations.\<close>

definition healthy_client :: "nat Service" where
  "healthy_client =
     (bare_client ''lighthouse'' ''localhost:5052'')
       \<lparr>SlotDurationProvider := Some (\<lambda>ctx w. ((12000000000, None), Suc w)),
        AttestationsSubmitter := Some (\<lambda>ctx attestations w. (None, Suc w))\<rparr>"

text \<open>A client whose \<open>SlotDuration\<close> fails.\<close>

definition failing_client :: "nat Service" where
  "failing_client =
     (bare_client ''teku'' ''localhost:5051'')
       \<lparr>SlotDurationProvider := Some (\<lambda>ctx w. ((0, Some ''connection refused''), Suc w))\<rparr>"

text \<open>
  A client that is itself a multi-client service with an empty roster: its
  \<open>SlotDuration\<close> returns what \<open>Service_SlotDuration\<close> returns there.
\<close>

definition nested_client :: "nat Service" where
  "nested_client =
     (bare_client ''multi'' ''multi'')
       \<lparr>SlotDurationProvider :=
          Some (\<lambda>ctx w. ((0, Some ''no active Ethereum 2 clients''), w))\<rparr>"

text \<open>
  A client whose \<open>Events\<close> delivers one event, a nil pointer, to the handler it is
  given and returns no error.
\<close>

definition streaming_client :: "nat Service" where
  "streaming_client =
     (bare_client ''nimbus'' ''localhost:5053'')
       \<lparr>EventsProvider := Some (\<lambda>ctx topics handler w. (None, handler None w))\<rparr>"

section \<open>Properties of the erroring client\<close>

lemmas Erroring_defs =
  Erroring_PrysmAttesterDuties_def Erroring_PrysmProposerDuties_def
  Erroring_PrysmValidatorBalances_def Erroring_EpochFromStateID_def
  Erroring_SlotFromStateID_def Erroring_NodeVersion_def Erroring_SlotDuration_def
  Erroring_SlotsPerEpoch_def Erroring_FarFutureEpoch_def
  Erroring_GenesisValidatorsRoot_def Erroring_TargetAggregatorsPerCommittee_def
  Erroring_BeaconAttesterDomain_def Erroring_BeaconProposerDomain_def
  Erroring_RANDAODomain_def Erroring_DepositDomain_def Erroring_VoluntaryExitDomain_def
  Erroring_SelectionProofDomain_def Erroring_AggregateAndProofDomain_def
  Erroring_AggregateAttestation_def Erroring_SubmitAggregateAttestations_def
  Erroring_AttestationData_def Erroring_AttestationPool_def
  Erroring_SubmitAttestations_def Erroring_AttesterDuties_def
  Erroring_BeaconBlockHeader_def Erroring_BeaconCommittees_def
  Erroring_BeaconBlockProposal_def Erroring_SubmitBeaconBlock_def
  Erroring_SubmitBeaconCommitteeSubscriptions_def Erroring_BeaconState_def
  Erroring_Events_def Erroring_Finality_def Erroring_Fork_def Erroring_ForkSchedule_def
  Erroring_Genesis_def Erroring_NodeSyncing_def Erroring_ProposerDuties_def
  Erroring_Spec_def Erroring_ValidatorBalances_def Erroring_Validators_def
  Erroring_ValidatorsByPubKey_def Erroring_SubmitVoluntaryExit_def Erroring_Domain_def
  Erroring_GenesisTime_def Erroring_DepositContract_def Erroring_SignedBeaconBlock_def
  Erroring_BeaconStateRoot_def

lemma perform_injected:
  assumes "maybeError s ctx' roll = Some err"
  shows "perform s c roll w = (zero_reply c (Some err), w)"
  using assms by (cases c) (simp_all add: Erroring_defs maybeError_def split: if_splits)

lemma perform_unsupported:
  assumes "maybeError s ctx' roll = None" and "invoke (next s) c = None"
  shows "perform s c roll w =
           (zero_reply c (Some (Name (next s) @ ''@'' @ Address (next s) @
              '' does not support this call'')), w)"
  using assms
  by (cases c) (simp_all add: Erroring_defs maybeError_def split: if_splits)

lemma perform_forward:
  assumes "maybeError s ctx' roll = None" and "invoke (next s) c = Some f"
  shows "perform s c roll w = f w"
  using assms
  by (cases c) (auto simp add: Erroring_defs maybeError_def split: if_splits)


text \<open>
  Claim C9. In every method of the erroring client the injected-error check comes
  first: when \<open>maybeError\<close> returns an error, the method returns the zero value of
  its result type with that error and leaves the state behind the wrapped client
  as it was, whatever the wrapped client is, capable or not. A submission thus has
  no effect.
\<close>

theorem Erroring_injected_error_first:
  assumes "maybeError s ctx' roll = Some err"
  shows "perform s c roll w = (zero_reply c (Some err), w) \<and>
         perform (s\<lparr>next := n\<rparr>) c roll w = (zero_reply c (Some err), w)"
proof
  show "perform s c roll w = (zero_reply c (Some err), w)"
    using assms by (rule perform_injected)
next
  have "maybeError (s\<lparr>next := n\<rparr>) ctx' roll = Some err"
    using assms by (simp add: maybeError_def)
  then show "perform (s\<lparr>next := n\<rparr>) c roll w = (zero_reply c (Some err), w)"
    by (rule perform_injected)
qed

theorem Erroring_injected_error_first_witness:
  "maybeError \<lparr>errorRate = Finite (1/2), next = healthy_client\<rparr> Background (Finite (1/4))
     = Some ''error'' \<and>
   perform \<lparr>errorRate = Finite (1/2), next = healthy_client\<rparr>
     (SubmitAttestations_call Background (Some [])) (Finite (1/4)) 0
     = (SubmitAttestations_reply (Some ''error''), 0) \<and>
   perform \<lparr>errorRate = Finite (1/2), next = bare_client ''prysm'' ''localhost:4000''\<rparr>
     (SubmitAttestations_call Background (Some [])) (Finite (1/4)) 0
     = (SubmitAttestations_reply (Some ''error''), 0)"
proof -
  have h: "maybeError \<lparr>errorRate = Finite (1/2), next = healthy_client\<rparr> Background
             (Finite (1/4)) = Some ''error''"
    by (simp add: maybeError_def)
  show ?thesis
    using h Erroring_injected_error_first [OF h,
        of "SubmitAttestations_call Background (Some [])" 0
           "bare_client ''prysm'' ''localhost:4000''"]
    by simp
qed

text \<open>
  Claim C4, amended. In every method of the erroring client, when no error is
  injected and the wrapped client lacks the capability of the method, the method
  returns the zero value of its result type with the error
  "<name>@<address> does not support this call", built from the name and address of
  the wrapped client, and leaves the state behind the wrapped client as it was.
\<close>

theorem Erroring_unsupported_call:
  assumes "maybeError s ctx' roll = None" and "invoke (next s) c = None"
  shows "perform s c roll w =
           (zero_reply c (Some (Name (next s) @ ''@'' @ Address (next s) @
              '' does not support this call'')), w)"
  using assms by (rule perform_unsupported)

theorem Erroring_unsupported_call_witness:
  "maybeError \<lparr>errorRate = Finite (1/2), next = bare_client ''prysm'' ''localhost:4000''\<rparr>
     Background (Finite (3/4)) = None \<and>
   invoke (bare_client ''prysm'' ''localhost:4000'')
     (SubmitAggregateAttestations_call Background None) = None \<and>
   perform \<lparr>errorRate = Finite (1/2), next = bare_client ''prysm'' ''localhost:4000''\<rparr>
     (SubmitAggregateAttestations_call Background None) (Finite (3/4)) 0
     = (SubmitAggregateAttestations_reply
          (Some ''prysm@localhost:4000 does not support this call''), 0)"
proof -
  let ?s = "\<lparr>errorRate = Finite (1/2), next = bare_client ''prysm'' ''localhost:4000''\<rparr>"
  have h1: "maybeError ?s Background (Finite (3/4)) = None"
    by (simp add: maybeError_def)
  have h2: "invoke (next ?s) (SubmitAggregateAttestations_call Background None) = None"
    by (simp add: bare_client_def)
  show ?thesis
    using h1 h2 Erroring_unsupported_call [OF h1 h2, of 0]
    by (simp add: bare_client_def)
qed

text \<open>
  Claim C4 as stated has no condition on the injected error. With error rate 1 and
  a wrapped client that lacks \<open>SlotDurationProvider\<close>, \<open>SlotDuration\<close> returns the
  injected error, not the "does not support this call" error.
\<close>

theorem Erroring_unsupported_call_counterexample:
  "SlotDurationProvider (bare_client ''prysm'' ''localhost:4000'') = None \<and>
   Erroring_SlotDuration
     \<lparr>errorRate = Finite 1, next = bare_client ''prysm'' ''localhost:4000''\<rparr>
     Background (Finite (1/2)) 0 = ((0, Some ''error''), 0) \<and>
   ''error'' \<noteq> ''prysm@localhost:4000 does not support this call''"
  by (simp add: Erroring_SlotDuration_def maybeError_def bare_client_def)

text \<open>
  Claim C6. The erroring client forwards: in every method, when no error is
  injected and the wrapped client has the capability, the method returns the value,
  the error and the state that the same call, with the same arguments, has on the
  wrapped client.
  The arguments include the event handler of \<open>Events\<close>: the wrapped client
  receives the handler of the caller, whose effect shows in the state.
\<close>

theorem Erroring_forwards:
  assumes "maybeError s ctx' roll = None" and "invoke (next s) c = Some f"
  shows "perform s c roll w = f w"
  using assms by (rule perform_forward)

theorem Erroring_forwards_witness:
  "maybeError \<lparr>errorRate = Finite (1/2), next = healthy_client\<rparr> Background (Finite (3/4))
     = None \<and>
   invoke healthy_client (SlotDuration_call Background)
     = Some (\<lambda>w. (SlotDuration_reply 12000000000 None, Suc w)) \<and>
   perform \<lparr>errorRate = Finite (1/2), next = healthy_client\<rparr>
     (SlotDuration_call Background) (Finite (3/4)) 5
     = (SlotDuration_reply 12000000000 None, 6) \<and>
   maybeError \<lparr>errorRate = Finite (1/2), next = streaming_client\<rparr> Background (Finite (3/4))
     = None \<and>
   invoke streaming_client
     (Events_call Background (Some [''head'']) (\<lambda>event w. w + 10))
     = Some (\<lambda>w. (Events_reply None, w + 10)) \<and>
   perform \<lparr>errorRate = Finite (1/2), next = streaming_client\<rparr>
     (Events_call Background (Some [''head'']) (\<lambda>event w. w + 10)) (Finite (3/4)) 5
     = (Events_reply None, 15) \<and>
   perform \<lparr>errorRate = Finite (1/2), next = streaming_client\<rparr>
     (Events_call Background (Some [''head'']) (\<lambda>event w. w + 20)) (Finite (3/4)) 5
     = (Events_reply None, 25)"
proof -
  let ?s = "\<lparr>errorRate = Finite (1/2), next = healthy_client\<rparr>"
  let ?t = "\<lparr>errorRate = Finite (1/2), next = streaming_client\<rparr>"
  have h1: "maybeError ?s Background (Finite (3/4)) = None"
    by (simp add: maybeError_def)
  have h2: "invoke (next ?s) (SlotDuration_call Background)
              = Some (\<lambda>w. (SlotDuration_reply 12000000000 None, Suc w))"
    by (simp add: healthy_client_def bare_client_def)
  have k1: "maybeError ?t Background (Finite (3/4)) = None"
    by (simp add: maybeError_def)
  have k2: "invoke (next ?t) (Events_call Background (Some [''head'']) (\<lambda>event w. w + 10))
              = Some (\<lambda>w. (Events_reply None, w + 10))"
    by (simp add: streaming_client_def bare_client_def)
  have k3: "invoke (next ?t) (Events_call Background (Some [''head'']) (\<lambda>event w. w + 20))
              = Some (\<lambda>w. (Events_reply None, w + 20))"
    by (simp add: streaming_client_def bare_client_def)
  have a: "perform ?s (SlotDuration_call Background) (Finite (3/4)) 5
             = (SlotDuration_reply 12000000000 None, 6)"
    using Erroring_forwards [OF h1 h2, of 5] by simp
  have b: "perform ?t (Events_call Background (Some [''head'']) (\<lambda>event w. w + 10))
             (Finite (3/4)) 5 = (Events_reply None, 15)"
    using Erroring_forwards [OF k1 k2, of 5] by simp
  have c: "perform ?t (Events_call Background (Some [''head'']) (\<lambda>event w. w + 20))
             (Finite (3/4)) 5 = (Events_reply None, 25)"
    using Erroring_forwards [OF k1 k3, of 5] by simp
  from h1 h2 k1 k2 a b c show ?thesis
    by simp
qed

text \<open>
  Claim C7. \<open>NewErroring\<close> returns an error and no client exactly when the next
  service is nil, or the error rate is less than 0, or it is greater than 1; on
  every other input it returns, without error, a client that holds the error rate
  and the next service it was given.
\<close>

theorem NewErroring_result:
  "((fst (NewErroring ctx errorRate' next') = None \<and> snd (NewErroring ctx errorRate' next') \<noteq> None)
      = (next' = None \<or> flt errorRate' (Finite 0) \<or> fgt errorRate' (Finite 1))) \<and>
   (next' = Some n \<and> \<not> flt errorRate' (Finite 0) \<and> \<not> fgt errorRate' (Finite 1)
      \<longrightarrow> NewErroring ctx errorRate' next' = (Some \<lparr>errorRate = errorRate', next = n\<rparr>, None))"
  by (cases next') (simp_all add: NewErroring_def)

theorem NewErroring_result_witness:
  "fst (NewErroring Background (Finite (3/2)) (Some healthy_client)) = None \<and>
   snd (NewErroring Background (Finite (3/2)) (Some healthy_client)) \<noteq> None \<and>
   fgt (Finite (3/2)) (Finite 1) \<and>
   \<not> flt (Finite (1/2)) (Finite 0) \<and> \<not> fgt (Finite (1/2)) (Finite 1) \<and>
   NewErroring Background (Finite (1/2)) (Some healthy_client)
     = (Some \<lparr>errorRate = Finite (1/2), next = healthy_client\<rparr>, None)"
  using NewErroring_result [of Background "Finite (3/2)" "Some healthy_client" healthy_client]
        NewErroring_result [of Background "Finite (1/2)" "Some healthy_client" healthy_client]
  by (simp add: fgt_def)

text \<open>
  Claim C10. \<open>maybeError\<close> returns an error exactly when the roll is strictly below
  the error rate. For a client built by \<open>NewErroring\<close> with error rate 0 and a roll
  of the unit interval, no error is injected: every method returns what the
  capability check or the wrapped client gives. With error rate 1 every method
  returns the injected error, the roll being strictly below 1.
\<close>

theorem maybeError_rate:
  "(maybeError s ctx roll \<noteq> None) = flt roll (errorRate s) \<and>
   (unit_sample roll \<and> NewErroring ctx (Finite 0) (Some n) = (Some s0, None) \<longrightarrow>
      maybeError s0 ctx roll = None \<and>
      perform s0 c roll w =
        (case invoke n c of
           None \<Rightarrow> (zero_reply c (Some (Name n @ ''@'' @ Address n @
                       '' does not support this call'')), w)
         | Some f \<Rightarrow> f w)) \<and>
   (unit_sample roll \<and> NewErroring ctx (Finite 1) (Some n) = (Some s1, None) \<longrightarrow>
      maybeError s1 ctx roll = Some ''error'' \<and>
      perform s1 c roll w = (zero_reply c (Some ''error''), w))"
proof (intro conjI impI)
  show "(maybeError s ctx roll \<noteq> None) = flt roll (errorRate s)"
    by (simp add: maybeError_def)
next
  assume a: "unit_sample roll \<and> NewErroring ctx (Finite 0) (Some n) = (Some s0, None)"
  then have s0: "s0 = \<lparr>errorRate = Finite 0, next = n\<rparr>"
    by (simp add: NewErroring_def fgt_def)
  from a have "\<not> flt roll (Finite 0)"
    by (cases roll) simp_all
  with s0 show none: "maybeError s0 ctx roll = None"
    by (simp add: maybeError_def)
  show "perform s0 c roll w =
        (case invoke n c of
           None \<Rightarrow> (zero_reply c (Some (Name n @ ''@'' @ Address n @
                       '' does not support this call'')), w)
         | Some f \<Rightarrow> f w)"
  proof (cases "invoke n c")
    case None
    then have "invoke (next s0) c = None" using s0 by simp
    from perform_unsupported [OF none this] show ?thesis
      using None s0 by simp
  next
    case (Some f)
    then have "invoke (next s0) c = Some f" using s0 by simp
    from perform_forward [OF none this] show ?thesis
      using Some by simp
  qed
next
  assume a: "unit_sample roll \<and> NewErroring ctx (Finite 1) (Some n) = (Some s1, None)"
  then have s1: "s1 = \<lparr>errorRate = Finite 1, next = n\<rparr>"
    by (simp add: NewErroring_def fgt_def)
  from a have "flt roll (Finite 1)"
    by (cases roll) simp_all
  with s1 show some: "maybeError s1 ctx roll = Some ''error''"
    by (simp add: maybeError_def)
  show "perform s1 c roll w = (zero_reply c (Some ''error''), w)"
    using some by (rule perform_injected)
qed

theorem maybeError_rate_witness:
  "unit_sample (Finite (1/2)) \<and>
   NewErroring Background (Finite 0) (Some healthy_client)
     = (Some \<lparr>errorRate = Finite 0, next = healthy_client\<rparr>, None) \<and>
   maybeError \<lparr>errorRate = Finite 0, next = healthy_client\<rparr> Background (Finite (1/2)) = None \<and>
   perform \<lparr>errorRate = Finite 0, next = healthy_client\<rparr>
     (SlotDuration_call Background) (Finite (1/2)) 0
     = (SlotDuration_reply 12000000000 None, 1) \<and>
   NewErroring Background (Finite 1) (Some healthy_client)
     = (Some \<lparr>errorRate = Finite 1, next = healthy_client\<rparr>, None) \<and>
   maybeError \<lparr>errorRate = Finite 1, next = healthy_client\<rparr> Background (Finite (1/2))
     = Some ''error'' \<and>
   perform \<lparr>errorRate = Finite 1, next = healthy_client\<rparr>
     (SlotDuration_call Background) (Finite (1/2)) 0
     = (SlotDuration_reply 0 (Some ''error''), 0)"
proof -
  have u: "unit_sample (Finite (1/2))"
    by simp
  have n0: "NewErroring Background (Finite 0) (Some healthy_client)
              = (Some \<lparr>errorRate = Finite 0, next = healthy_client\<rparr>, None)"
    by (simp add: NewErroring_def fgt_def)
  have n1: "NewErroring Background (Finite 1) (Some healthy_client)
              = (Some \<lparr>errorRate = Finite 1, next = healthy_client\<rparr>, None)"
    by (simp add: NewErroring_def fgt_def)
  have i: "invoke healthy_client (SlotDuration_call Background)
             = Some (\<lambda>w. (SlotDuration_reply 12000000000 None, Suc w))"
    by (simp add: healthy_client_def bare_client_def)
  show ?thesis
    using u n0 n1 i
      maybeError_rate [of "\<lparr>errorRate = Finite 0, next = healthy_client\<rparr>" Background
        "Finite (1/2)" healthy_client "\<lparr>errorRate = Finite 0, next = healthy_client\<rparr>"
        "SlotDuration_call Background" 0 "\<lparr>errorRate = Finite 1, next = healthy_client\<rparr>"]
    by (simp add: healthy_client_def bare_client_def)
qed

section \<open>Properties of the multi-client service\<close>

lemma SlotDuration_capable:
  assumes "activeClients s \<noteq> []" and "SlotDurationProvider (activeClients s ! 0) = Some f"
  shows "Service_SlotDuration s ctx w =
           ((Returned (fst (f ctx w)), snd (f ctx w)), [RLock, ClientCall 0, RUnlock])"
  using assms by (simp add: Service_SlotDuration_def split: prod.splits)

lemma SlotDuration_empty:
  assumes "activeClients s = []"
  shows "Service_SlotDuration s ctx w =
           ((Returned (0, Some ''no active Ethereum 2 clients''), w), [RLock, RUnlock])"
  using assms by (simp add: Service_SlotDuration_def)

lemma SlotDuration_incapable:
  assumes "activeClients s \<noteq> []" and "SlotDurationProvider (activeClients s ! 0) = None"
  shows "Service_SlotDuration s ctx w = ((Panicked, w), [RLock, RUnlock])"
  using assms by (simp add: Service_SlotDuration_def)

text \<open>
  Claim C1, amended. With a non-empty roster whose first client has the capability,
  \<open>SlotDuration\<close> calls the first roster entry and no other, once, and returns the
  duration and the error of that call as they are. A failure of the first client is
  the result; no other roster entry is tried.
\<close>

theorem SlotDuration_first_client_only:
  assumes "activeClients s \<noteq> []" and "SlotDurationProvider (activeClients s ! 0) = Some f"
  shows "Service_SlotDuration s ctx w =
           ((Returned (fst (f ctx w)), snd (f ctx w)), [RLock, ClientCall 0, RUnlock])"
  using assms by (rule SlotDuration_capable)

theorem SlotDuration_first_client_only_witness:
  "activeClients \<lparr>activeClients = [healthy_client, failing_client]\<rparr> \<noteq> [] \<and>
   SlotDurationProvider (activeClients \<lparr>activeClients = [healthy_client, failing_client]\<rparr> ! 0)
     = Some (\<lambda>ctx w. ((12000000000, None), Suc w)) \<and>
   Service_SlotDuration \<lparr>activeClients = [healthy_client, failing_client]\<rparr> Background 0
     = ((Returned (12000000000, None), 1), [RLock, ClientCall 0, RUnlock])"
proof -
  let ?s = "\<lparr>activeClients = [healthy_client, failing_client]\<rparr>"
  have h1: "activeClients ?s \<noteq> []"
    by simp
  have h2: "SlotDurationProvider (activeClients ?s ! 0)
              = Some (\<lambda>ctx w. ((12000000000, None), Suc w))"
    by (simp add: healthy_client_def bare_client_def)
  show ?thesis
    using h1 h2 SlotDuration_first_client_only [OF h1 h2, of Background 0]
    by simp
qed

text \<open>
  Claim C1 as stated promises a second try. On the roster of a failing client
  followed by a healthy one, \<open>SlotDuration\<close> returns the failure of the first client
  after one client call; the second client, which would answer, is not called.
\<close>

theorem SlotDuration_failover_counterexample:
  "Service_SlotDuration \<lparr>activeClients = [failing_client, healthy_client]\<rparr> Background 0
     = ((Returned (0, Some ''connection refused''), 1), [RLock, ClientCall 0, RUnlock]) \<and>
   map_option (\<lambda>f. f Background 1) (SlotDurationProvider healthy_client)
     = Some ((12000000000, None), 2)"
  by (simp add: Service_SlotDuration_def failing_client_def healthy_client_def bare_client_def)

text \<open>
  Claim C2. The claim asks for an error when the first client of a non-empty roster
  lacks the slot-duration capability. The code panics there: on the roster of a
  client without \<open>SlotDurationProvider\<close>, followed by a healthy one, the call does not
  return.
\<close>

theorem SlotDuration_incapable_first_client_panics:
  "SlotDurationProvider (bare_client ''prysm'' ''localhost:4000'') = None \<and>
   Service_SlotDuration
     \<lparr>activeClients = [bare_client ''prysm'' ''localhost:4000'', healthy_client]\<rparr>
     Background 0
     = ((Panicked, 0), [RLock, RUnlock])"
  by (simp add: Service_SlotDuration_def bare_client_def)

text \<open>
  Claim C3, amended. On every path \<open>SlotDuration\<close> takes the read lock of the
  roster first and releases it last, as the function is left. When the roster is
  empty, and when the first client lacks the capability and the call panics, no
  client is called and the lock covers the roster read alone. When the roster is
  not empty and its first client has the capability, the call on that client is
  made while the read lock is held.
\<close>

theorem SlotDuration_lock_scope:
  "snd (Service_SlotDuration s ctx w) =
     (if activeClients s = [] then [RLock, RUnlock]
      else (case SlotDurationProvider (activeClients s ! 0) of
              None \<Rightarrow> [RLock, RUnlock]
            | Some f \<Rightarrow> [RLock, ClientCall 0, RUnlock])) \<and>
   (activeClients s = [] \<longrightarrow>
      snd (Service_SlotDuration s ctx w) = [RLock, RUnlock] \<and>
      calls_unlocked 0 (snd (Service_SlotDuration s ctx w))) \<and>
   (activeClients s \<noteq> [] \<and> SlotDurationProvider (activeClients s ! 0) = None \<longrightarrow>
      snd (Service_SlotDuration s ctx w) = [RLock, RUnlock] \<and>
      calls_unlocked 0 (snd (Service_SlotDuration s ctx w))) \<and>
   (activeClients s \<noteq> [] \<and> SlotDurationProvider (activeClients s ! 0) = Some f \<longrightarrow>
      snd (Service_SlotDuration s ctx w) = [RLock, ClientCall 0, RUnlock] \<and>
      \<not> calls_unlocked 0 (snd (Service_SlotDuration s ctx w)))"
proof (intro conjI impI)
  show "snd (Service_SlotDuration s ctx w) =
     (if activeClients s = [] then [RLock, RUnlock]
      else (case SlotDurationProvider (activeClients s ! 0) of
              None \<Rightarrow> [RLock, RUnlock]
            | Some f \<Rightarrow> [RLock, ClientCall 0, RUnlock]))"
  proof (cases "activeClients s = []")
    case True
    then show ?thesis
      by (simp add: SlotDuration_empty)
  next
    case False
    show ?thesis
    proof (cases "SlotDurationProvider (activeClients s ! 0)")
      case None
      with False show ?thesis
        by (simp add: SlotDuration_incapable)
    next
      case (Some g)
      with False show ?thesis
        by (simp add: SlotDuration_capable)
    qed
  qed
next
  assume e: "activeClients s = []"
  show "snd (Service_SlotDuration s ctx w) = [RLock, RUnlock]"
    by (simp add: SlotDuration_empty [OF e])
  show "calls_unlocked 0 (snd (Service_SlotDuration s ctx w))"
    by (simp add: SlotDuration_empty [OF e])
next
  assume a: "activeClients s \<noteq> [] \<and> SlotDurationProvider (activeClients s ! 0) = None"
  then have ne: "activeClients s \<noteq> []"
    and inc: "SlotDurationProvider (activeClients s ! 0) = None"
    by simp_all
  show "snd (Service_SlotDuration s ctx w) = [RLock, RUnlock]"
    by (simp add: SlotDuration_incapable [OF ne inc])
  show "calls_unlocked 0 (snd (Service_SlotDuration s ctx w))"
    by (simp add: SlotDuration_incapable [OF ne inc])
next
  assume a: "activeClients s \<noteq> [] \<and> SlotDurationProvider (activeClients s ! 0) = Some f"
  then have ne: "activeClients s \<noteq> []"
    and cap: "SlotDurationProvider (activeClients s ! 0) = Some f"
    by simp_all
  show "snd (Service_SlotDuration s ctx w) = [RLock, ClientCall 0, RUnlock]"
    by (simp add: SlotDuration_capable [OF ne cap])
  show "\<not> calls_unlocked 0 (snd (Service_SlotDuration s ctx w))"
    by (simp add: SlotDuration_capable [OF ne cap])
qed

theorem SlotDuration_lock_scope_witness:
  "activeClients \<lparr>activeClients = ([] :: nat Service list)\<rparr> = [] \<and>
   snd (Service_SlotDuration \<lparr>activeClients = []\<rparr> Background (0::nat)) = [RLock, RUnlock] \<and>
   calls_unlocked 0 (snd (Service_SlotDuration \<lparr>activeClients = []\<rparr> Background (0::nat))) \<and>
   activeClients \<lparr>activeClients = [bare_client ''prysm'' ''localhost:4000'']\<rparr> \<noteq> [] \<and>
   SlotDurationProvider
     (activeClients \<lparr>activeClients = [bare_client ''prysm'' ''localhost:4000'']\<rparr> ! 0) = None \<and>
   snd (Service_SlotDuration \<lparr>activeClients = [bare_client ''prysm'' ''localhost:4000'']\<rparr>
          Background 0) = [RLock, RUnlock] \<and>
   calls_unlocked 0
     (snd (Service_SlotDuration \<lparr>activeClients = [bare_client ''prysm'' ''localhost:4000'']\<rparr>
             Background 0)) \<and>
   activeClients \<lparr>activeClients = [failing_client]\<rparr> \<noteq> [] \<and>
   SlotDurationProvider (activeClients \<lparr>activeClients = [failing_client]\<rparr> ! 0)
     = Some (\<lambda>ctx w. ((0, Some ''connection refused''), Suc w)) \<and>
   snd (Service_SlotDuration \<lparr>activeClients = [failing_client]\<rparr> Background 0)
     = [RLock, ClientCall 0, RUnlock] \<and>
   \<not> calls_unlocked 0 (snd (Service_SlotDuration \<lparr>activeClients = [failing_client]\<rparr> Background 0))"
proof -
  have h: "SlotDurationProvider (activeClients \<lparr>activeClients = [failing_client]\<rparr> ! 0)
             = Some (\<lambda>ctx w. ((0, Some ''connection refused''), Suc w))"
    by (simp add: failing_client_def bare_client_def)
  have b: "SlotDurationProvider
             (activeClients \<lparr>activeClients = [bare_client ''prysm'' ''localhost:4000'']\<rparr> ! 0)
             = None"
    by (simp add: bare_client_def)
  show ?thesis
    using h b
      SlotDuration_lock_scope [where s = "\<lparr>activeClients = []\<rparr>"
        and ctx = Background and w = "0::nat"]
      SlotDuration_lock_scope
        [where s = "\<lparr>activeClients = [bare_client ''prysm'' ''localhost:4000'']\<rparr>"
        and ctx = Background and w = 0]
      SlotDuration_lock_scope [where s = "\<lparr>activeClients = [failing_client]\<rparr>"
        and f = "\<lambda>ctx w. ((0, Some ''connection refused''), Suc w)"
        and ctx = Background and w = 0]
    by simp
qed

text \<open>
  Claim C3 as stated: no client call under the roster lock. On a roster of one
  healthy client the call is made between \<open>RLock\<close> and \<open>RUnlock\<close>.
\<close>

theorem SlotDuration_lock_scope_counterexample:
  "snd (Service_SlotDuration \<lparr>activeClients = [healthy_client]\<rparr> Background 0)
     = [RLock, ClientCall 0, RUnlock] \<and>
   \<not> calls_unlocked 0 (snd (Service_SlotDuration \<lparr>activeClients = [healthy_client]\<rparr> Background 0))"
  by (simp add: Service_SlotDuration_def healthy_client_def bare_client_def)

text \<open>
  Claim C5, amended. When the roster is empty, \<open>SlotDuration\<close> returns a zero
  duration with the error "no active Ethereum 2 clients" and calls no client. When
  the roster is not empty, it returns that error only if the call on the first
  client returned it.
\<close>

theorem SlotDuration_no_active_clients:
  "(activeClients s = [] \<longrightarrow>
      Service_SlotDuration s ctx w =
        ((Returned (0, Some ''no active Ethereum 2 clients''), w), [RLock, RUnlock])) \<and>
   (activeClients s \<noteq> [] \<and>
    fst (fst (Service_SlotDuration s ctx w)) = Returned (d, Some ''no active Ethereum 2 clients'')
      \<longrightarrow> (\<exists>f. SlotDurationProvider (activeClients s ! 0) = Some f \<and>
               fst (f ctx w) = (d, Some ''no active Ethereum 2 clients'')))"
proof (intro conjI impI)
  assume "activeClients s = []"
  then show "Service_SlotDuration s ctx w =
        ((Returned (0, Some ''no active Ethereum 2 clients''), w), [RLock, RUnlock])"
    by (rule SlotDuration_empty)
next
  assume a: "activeClients s \<noteq> [] \<and>
    fst (fst (Service_SlotDuration s ctx w)) = Returned (d, Some ''no active Ethereum 2 clients'')"
  then have ne: "activeClients s \<noteq> []"
    and r: "fst (fst (Service_SlotDuration s ctx w))
              = Returned (d, Some ''no active Ethereum 2 clients'')"
    by simp_all
  show "\<exists>f. SlotDurationProvider (activeClients s ! 0) = Some f \<and>
               fst (f ctx w) = (d, Some ''no active Ethereum 2 clients'')"
  proof (cases "SlotDurationProvider (activeClients s ! 0)")
    case None
    from r show ?thesis
      by (simp add: SlotDuration_incapable [OF ne None])
  next
    case (Some f)
    from r show ?thesis
      by (simp add: SlotDuration_capable [OF ne Some] Some)
  qed
qed

theorem SlotDuration_no_active_clients_witness:
  "activeClients \<lparr>activeClients = ([] :: nat Service list)\<rparr> = [] \<and>
   Service_SlotDuration \<lparr>activeClients = []\<rparr> Background (7::nat)
     = ((Returned (0, Some ''no active Ethereum 2 clients''), 7), [RLock, RUnlock]) \<and>
   activeClients \<lparr>activeClients = [nested_client]\<rparr> \<noteq> [] \<and>
   fst (fst (Service_SlotDuration \<lparr>activeClients = [nested_client]\<rparr> Background 7))
     = Returned (0, Some ''no active Ethereum 2 clients'') \<and>
   (\<exists>f. SlotDurationProvider (activeClients \<lparr>activeClients = [nested_client]\<rparr> ! 0) = Some f \<and>
        fst (f Background 7) = (0, Some ''no active Ethereum 2 clients''))"
proof -
  have h: "fst (fst (Service_SlotDuration \<lparr>activeClients = [nested_client]\<rparr> Background 7))
             = Returned (0, Some ''no active Ethereum 2 clients'')"
    by (simp add: Service_SlotDuration_def nested_client_def bare_client_def)
  show ?thesis
    using h
      SlotDuration_no_active_clients [of "\<lparr>activeClients = []\<rparr>" Background "7::nat"]
      SlotDuration_no_active_clients [of "\<lparr>activeClients = [nested_client]\<rparr>" Background 7 0]
    by simp
qed

text \<open>
  Claim C5 as stated: the error exactly when the roster is empty. On the roster
  of one client whose own \<open>SlotDuration\<close> returns "no active Ethereum 2 clients",
  the call returns that error with a roster that is not empty, after a client call.
\<close>

theorem SlotDuration_no_active_clients_counterexample:
  "activeClients \<lparr>activeClients = [nested_client]\<rparr> \<noteq> [] \<and>
   Service_SlotDuration \<lparr>activeClients = [nested_client]\<rparr> Background 0
     = ((Returned (0, Some ''no active Ethereum 2 clients''), 0),
        [RLock, ClientCall 0, RUnlock])"
  by (simp add: Service_SlotDuration_def nested_client_def bare_client_def)

end
